theory Spec2Isabelle
  imports Main
begin

section \<open>Go library functions used by the service\<close>

text \<open>
  The service is written in Go. Strings are byte sequences (\<open>string\<close>), a Go
  \<open>error\<close> is a value of a sum of the dynamic error types the program can meet,
  and the functions of the packages \<open>strings\<close>, \<open>path\<close> and \<open>strconv\<close> that
  the source calls are written out here after the documented behaviour of the Go
  standard library; they are not part of the repository.
\<close>

definition HasPrefix :: "string \<Rightarrow> string \<Rightarrow> bool" where
  "HasPrefix s pre = (length pre \<le> length s \<and> take (length pre) s = pre)"

definition HasSuffix :: "string \<Rightarrow> string \<Rightarrow> bool" where
  "HasSuffix s suf = (length suf \<le> length s \<and> drop (length s - length suf) s = suf)"

definition TrimSuffix :: "string \<Rightarrow> string \<Rightarrow> string" where
  "TrimSuffix s suf = (if HasSuffix s suf then take (length s - length suf) s else s)"

text \<open>\<open>strings.Split(s, sep)\<close> for a separator of one byte: the pieces between the
  separators, one more than there are separators.\<close>

fun Split :: "string \<Rightarrow> char \<Rightarrow> string list" where
  "Split [] sep = [[]]"
| "Split (c # cs) sep =
     (if c = sep then [] # Split cs sep
      else (case Split cs sep of
              [] \<Rightarrow> [[c]]
            | p # ps \<Rightarrow> (c # p) # ps))"

fun Join :: "string list \<Rightarrow> string \<Rightarrow> string" where
  "Join [] sep = []"
| "Join [p] sep = p"
| "Join (p # q # ps) sep = p @ sep @ Join (q # ps) sep"

text \<open>
  \<open>path.Clean\<close>, element by element: empty and \<open>.\<close> elements are dropped, a
  \<open>..\<close> element removes the element before it when there is one to remove, is
  dropped at the root, and is kept at the front of a path that is not rooted
  (\<open>dotdot\<close> counts the \<open>..\<close> elements kept there). The empty result is \<open>.\<close>.
\<close>

fun clean_elements :: "bool \<Rightarrow> string list \<Rightarrow> string list \<Rightarrow> nat \<Rightarrow> string list" where
  "clean_elements rooted [] out dotdot = out"
| "clean_elements rooted (e # es) out dotdot =
     (if e = [] \<or> e = ''.'' then clean_elements rooted es out dotdot
      else if e = ''..'' then
        (if dotdot < length out then clean_elements rooted es (butlast out) dotdot
         else if \<not> rooted then clean_elements rooted es (out @ [''..'']) (Suc dotdot)
         else clean_elements rooted es out dotdot)
      else clean_elements rooted es (out @ [e]) dotdot)"

definition Clean :: "string \<Rightarrow> string" where
  "Clean p =
     (if p = [] then ''.''
      else
        (let rooted = (hd p = CHR ''/'');
             out = clean_elements rooted (Split p CHR ''/'') [] 0
         in if rooted then ''/'' @ Join out ''/''
            else if out = [] then ''.''
            else Join out ''/''))"

text \<open>\<open>path.Dir\<close>: everything up to the last slash (\<open>path.Split\<close>), cleaned.\<close>

definition Dir :: "string \<Rightarrow> string" where
  "Dir p = Clean (rev (dropWhile (\<lambda>c. c \<noteq> CHR ''/'') (rev p)))"

text \<open>\<open>path.Base\<close>: the last element of the path, trailing slashes removed
  first; \<open>.\<close> for the empty path and \<open>/\<close> for a path of slashes only.\<close>

definition Base :: "string \<Rightarrow> string" where
  "Base p =
     (if p = [] then ''.''
      else
        (let q = rev (dropWhile (\<lambda>c. c = CHR ''/'') (rev p));
             b = rev (takeWhile (\<lambda>c. c \<noteq> CHR ''/'') (rev q))
         in if b = [] then ''/'' else b))"

subsection \<open>Errors\<close>

text \<open>
  The dynamic types an \<open>error\<close> value of this program can have: the error
  types of the four provider SDKs, each with the fields the source inspects
  (\<open>minio.ErrorResponse.Code\<close>, \<open>oss.ServiceError.Code\<close>, \<open>obs.ObsError.Code\<close>,
  \<open>azcore.ResponseError.StatusCode\<close> and \<open>ErrorCode\<close>), any other error
  (a transport failure, \<open>strconv.NumError\<close>) by its message, and an error
  wrapped by \<open>fmt.Errorf\<close> with \<open>%w\<close>.
\<close>

datatype go_error =
    MinioErrorResponse string
  | OssServiceError string
  | ObsError string
  | AzureResponseError nat string
  | ErrorString string
  | WrapError string go_error

text \<open>\<open>minio.ToErrorResponse(err).Code\<close>: the code of an \<open>ErrorResponse\<close>, and
  the code of the zero \<open>ErrorResponse\<close> for every other error.\<close>

fun ToErrorResponse_Code :: "go_error \<Rightarrow> string" where
  "ToErrorResponse_Code (MinioErrorResponse code) = code"
| "ToErrorResponse_Code _ = []"

text \<open>The type assertions \<open>err.(oss.ServiceError)\<close> and \<open>err.(obs.ObsError)\<close>: the
  code when the dynamic type is the asserted one (no unwrapping).\<close>

fun as_oss_ServiceError :: "go_error \<Rightarrow> string option" where
  "as_oss_ServiceError (OssServiceError code) = Some code"
| "as_oss_ServiceError _ = None"

fun as_obs_ObsError :: "go_error \<Rightarrow> string option" where
  "as_obs_ObsError (ObsError code) = Some code"
| "as_obs_ObsError _ = None"

text \<open>\<open>errors.As(err, &respErr)\<close> for \<open>*azcore.ResponseError\<close>: the first
  error of that type in the chain of wrapped errors; its status code.\<close>

fun errors_As_ResponseError :: "go_error \<Rightarrow> nat option" where
  "errors_As_ResponseError (AzureResponseError status code) = Some status"
| "errors_As_ResponseError (WrapError msg e) = errors_As_ResponseError e"
| "errors_As_ResponseError _ = None"

subsection \<open>\<open>strconv.ParseInt(s, 10, 64)\<close>\<close>

fun parse_digits :: "string \<Rightarrow> nat \<Rightarrow> nat option" where
  "parse_digits [] acc = Some acc"
| "parse_digits (c # cs) acc =
     (if 48 \<le> (of_char c :: nat) \<and> (of_char c :: nat) \<le> 57
      then parse_digits cs (10 * acc + (of_char c - 48))
      else None)"

text \<open>The value and the error, as Go returns both: 0 with a syntax error, the
  nearest bound of \<open>int64\<close> with a range error.\<close>

definition ParseInt :: "string \<Rightarrow> int \<times> go_error option" where
  "ParseInt s =
     (let neg = (s \<noteq> [] \<and> hd s = CHR ''-'');
          ds = (if s \<noteq> [] \<and> (hd s = CHR ''+'' \<or> hd s = CHR ''-'') then tl s else s)
      in if ds = [] then (0, Some (ErrorString ''invalid syntax''))
         else (case parse_digits ds 0 of
                 None \<Rightarrow> (0, Some (ErrorString ''invalid syntax''))
               | Some n \<Rightarrow>
                   if \<not> neg \<and> 2 ^ 63 \<le> n then (2 ^ 63 - 1, Some (ErrorString ''value out of range''))
                   else if neg \<and> 2 ^ 63 < n then (- (2 ^ 63), Some (ErrorString ''value out of range''))
                   else (if neg then - int n else int n, None)))"

section \<open>The object record and the storage contract\<close>

text \<open>
  \<open>storage.FileObject\<close>. \<open>Size\<close> is an \<open>int64\<close> that the program only passes
  on; \<open>LastModified\<close> is the time already rendered as text; \<open>Metadata\<close> is a Go
  map, which can be \<open>nil\<close>: \<open>None\<close> is the nil map, \<open>Some m\<close> an allocated one.
\<close>

record FileObject =
  Name :: string
  Size :: int
  ContentType :: string
  LastModified :: string
  Metadata :: "(string \<rightharpoonup> string) option"
  IsDir :: bool

text \<open>
  The \<open>Storage\<close> interface. Every operation acts on the world \<open>'w\<close> (the remote
  store and whatever else a call can touch) and returns the world after the
  call; \<open>'r\<close> is the type of the streams (\<open>io.ReadCloser\<close>) that \<open>Download\<close>
  hands out. The request body given to \<open>Upload\<close> is its bytes.
\<close>

record ('w, 'r) Storage =
  Upload :: "string \<Rightarrow> string \<Rightarrow> string \<Rightarrow> int \<Rightarrow> string \<Rightarrow> 'w \<Rightarrow> go_error option \<times> 'w"
  Download :: "string \<Rightarrow> string \<Rightarrow> 'w \<Rightarrow> (go_error + 'r) \<times> 'w"
  Delete :: "string \<Rightarrow> string \<Rightarrow> 'w \<Rightarrow> go_error option \<times> 'w"
  List :: "string \<Rightarrow> string \<Rightarrow> 'w \<Rightarrow> (go_error + FileObject list) \<times> 'w"
  GetObjectInfo :: "string \<Rightarrow> string \<Rightarrow> 'w \<Rightarrow> (go_error + FileObject) \<times> 'w"
  CreateDirectory :: "string \<Rightarrow> string \<Rightarrow> 'w \<Rightarrow> go_error option \<times> 'w"
  ListDirectories :: "string \<Rightarrow> string \<Rightarrow> 'w \<Rightarrow> (go_error + FileObject list) \<times> 'w"
  EnsurePathExists :: "string \<Rightarrow> string \<Rightarrow> 'w \<Rightarrow> go_error option \<times> 'w"

section \<open>The backend adapters\<close>

text \<open>
  Each adapter implements the contract by calls to its provider's SDK. The SDK
  clients are not part of the repository: a client is a parameter, a record of
  the SDK operations the adapter calls, each acting on the world. The Go
  \<open>context\<close> argument is left out; a \<open>time.Time\<close> is carried as the text that
  \<open>Format(time.RFC3339)\<close> gives.
\<close>

text \<open>A record as a Go struct literal that names only these fields leaves it:
  \<open>LastModified\<close> empty and \<open>Metadata\<close> nil.\<close>

definition directory_record :: "string \<Rightarrow> FileObject" where
  "directory_record prefix =
     \<lparr>Name = prefix, Size = 0, ContentType = ''application/directory'', LastModified = [],
      Metadata = None, IsDir = True\<rparr>"

text \<open>\<open>objectName\<close> made to end with a slash, as every \<open>CreateDirectory\<close> and
  every \<open>EnsurePathExists\<close> does.\<close>

definition with_slash :: "string \<Rightarrow> string" where
  "with_slash objectName = (if \<not> HasSuffix objectName ''/'' then objectName @ ''/'' else objectName)"

subsection \<open>MinIO\<close>

record minio_ObjectInfo =
  oi_Key :: string
  oi_Size :: int
  oi_ContentType :: string
  oi_LastModified :: string
  oi_UserMetadata :: "(string \<rightharpoonup> string) option"
  oi_Err :: "go_error option"

text \<open>\<open>ListObjects\<close> returns a channel; the adapter reads it to its end or to
  the first item that carries an error. The channel is the list of its items.\<close>

record ('w, 'r) minio_Client =
  minio_PutObject :: "string \<Rightarrow> string \<Rightarrow> string \<Rightarrow> int \<Rightarrow> string \<Rightarrow> 'w \<Rightarrow> go_error option \<times> 'w"
  minio_GetObject :: "string \<Rightarrow> string \<Rightarrow> 'w \<Rightarrow> (go_error + 'r) \<times> 'w"
  minio_RemoveObject :: "string \<Rightarrow> string \<Rightarrow> 'w \<Rightarrow> go_error option \<times> 'w"
  minio_ListObjects :: "string \<Rightarrow> string \<Rightarrow> bool \<Rightarrow> 'w \<Rightarrow> minio_ObjectInfo list \<times> 'w"
  minio_StatObject :: "string \<Rightarrow> string \<Rightarrow> 'w \<Rightarrow> (go_error + minio_ObjectInfo) \<times> 'w"

definition convertMetadata :: "(string \<rightharpoonup> string) option \<Rightarrow> (string \<rightharpoonup> string) option" where
  "convertMetadata metadata =
     Some (case metadata of None \<Rightarrow> Map.empty | Some m \<Rightarrow> Map.empty ++ m)"

definition minio_FileObject :: "minio_ObjectInfo \<Rightarrow> bool \<Rightarrow> FileObject" where
  "minio_FileObject object isDir =
     \<lparr>Name = oi_Key object, Size = oi_Size object, ContentType = oi_ContentType object,
      LastModified = oi_LastModified object, Metadata = convertMetadata (oi_UserMetadata object),
      IsDir = isDir\<rparr>"

definition MinIOStorage_Upload ::
  "('w, 'r) minio_Client \<Rightarrow> string \<Rightarrow> string \<Rightarrow> string \<Rightarrow> int \<Rightarrow> string \<Rightarrow> 'w \<Rightarrow> go_error option \<times> 'w" where
  "MinIOStorage_Upload m bucket objectName reader sz contentType w =
     minio_PutObject m bucket objectName reader sz contentType w"

definition MinIOStorage_Download ::
  "('w, 'r) minio_Client \<Rightarrow> string \<Rightarrow> string \<Rightarrow> 'w \<Rightarrow> (go_error + 'r) \<times> 'w" where
  "MinIOStorage_Download m bucket objectName w = minio_GetObject m bucket objectName w"

definition MinIOStorage_Delete ::
  "('w, 'r) minio_Client \<Rightarrow> string \<Rightarrow> string \<Rightarrow> 'w \<Rightarrow> go_error option \<times> 'w" where
  "MinIOStorage_Delete m bucket objectName w = minio_RemoveObject m bucket objectName w"

fun MinIOStorage_List_loop :: "minio_ObjectInfo list \<Rightarrow> FileObject list \<Rightarrow> go_error + FileObject list" where
  "MinIOStorage_List_loop [] objects = Inr objects"
| "MinIOStorage_List_loop (object # objectCh) objects =
     (case oi_Err object of
        Some err \<Rightarrow> Inl err
      | None \<Rightarrow> MinIOStorage_List_loop objectCh (objects @ [minio_FileObject object False]))"

definition MinIOStorage_List ::
  "('w, 'r) minio_Client \<Rightarrow> string \<Rightarrow> string \<Rightarrow> 'w \<Rightarrow> (go_error + FileObject list) \<times> 'w" where
  "MinIOStorage_List m bucket prefix w =
     (case minio_ListObjects m bucket prefix True w of
        (objectCh, w1) \<Rightarrow> (MinIOStorage_List_loop objectCh [], w1))"

definition MinIOStorage_GetObjectInfo ::
  "('w, 'r) minio_Client \<Rightarrow> string \<Rightarrow> string \<Rightarrow> 'w \<Rightarrow> (go_error + FileObject) \<times> 'w" where
  "MinIOStorage_GetObjectInfo m bucket objectName w =
     (case minio_StatObject m bucket objectName w of
        (Inl err, w1) \<Rightarrow> (Inl err, w1)
      | (Inr info, w1) \<Rightarrow> (Inr (minio_FileObject info False), w1))"

fun MinIOStorage_ListDirectories_loop ::
  "minio_ObjectInfo list \<Rightarrow> FileObject list \<Rightarrow> go_error + FileObject list" where
  "MinIOStorage_ListDirectories_loop [] dirs = Inr dirs"
| "MinIOStorage_ListDirectories_loop (object # objectCh) dirs =
     (case oi_Err object of
        Some err \<Rightarrow> Inl err
      | None \<Rightarrow>
          if HasSuffix (oi_Key object) ''/''
          then MinIOStorage_ListDirectories_loop objectCh (dirs @ [minio_FileObject object True])
          else MinIOStorage_ListDirectories_loop objectCh dirs)"

definition MinIOStorage_ListDirectories ::
  "('w, 'r) minio_Client \<Rightarrow> string \<Rightarrow> string \<Rightarrow> 'w \<Rightarrow> (go_error + FileObject list) \<times> 'w" where
  "MinIOStorage_ListDirectories m bucket prefix w =
     (case minio_ListObjects m bucket prefix False w of
        (objectCh, w1) \<Rightarrow> (MinIOStorage_ListDirectories_loop objectCh [], w1))"

definition MinIOStorage_CreateDirectory ::
  "('w, 'r) minio_Client \<Rightarrow> string \<Rightarrow> string \<Rightarrow> 'w \<Rightarrow> go_error option \<times> 'w" where
  "MinIOStorage_CreateDirectory m bucket objectName w =
     minio_PutObject m bucket (with_slash objectName) [] 0 ''application/directory'' w"

definition MinIOStorage_EnsurePathExists ::
  "('w, 'r) minio_Client \<Rightarrow> string \<Rightarrow> string \<Rightarrow> 'w \<Rightarrow> go_error option \<times> 'w" where
  "MinIOStorage_EnsurePathExists m bucket objectPath w =
     (let dir = Dir objectPath
      in if dir = ''.'' \<or> dir = ''/'' then (None, w)
         else
           (case minio_StatObject m bucket (with_slash dir) w of
              (Inr info, w1) \<Rightarrow> (None, w1)
            | (Inl err, w1) \<Rightarrow>
                if ToErrorResponse_Code err \<noteq> ''NoSuchKey'' then (Some err, w1)
                else MinIOStorage_CreateDirectory m bucket (with_slash dir) w1))"

subsection \<open>Aliyun OSS\<close>

datatype oss_Option =
    oss_Prefix string
  | oss_MaxKeys int
  | oss_Delimiter string
  | oss_Marker string
  | oss_ContentType string

record oss_ObjectProperties =
  op_Key :: string
  op_Size :: int
  op_Type :: string
  op_LastModified :: string

record oss_ListObjectsResult =
  lor_Objects :: "oss_ObjectProperties list"
  lor_CommonPrefixes :: "string list"
  lor_IsTruncated :: bool
  lor_NextMarker :: string

text \<open>\<open>client.Bucket(name)\<close> makes no request; it returns an error for a name
  the SDK rejects. \<open>GetObjectDetailedMeta\<close> returns the response headers
  (\<open>http.Header\<close>: the values of each name).\<close>

record ('w, 'r) oss_Client =
  oss_Bucket :: "string \<Rightarrow> go_error option"
  oss_PutObject :: "string \<Rightarrow> string \<Rightarrow> string \<Rightarrow> oss_Option list \<Rightarrow> 'w \<Rightarrow> go_error option \<times> 'w"
  oss_GetObject :: "string \<Rightarrow> string \<Rightarrow> 'w \<Rightarrow> (go_error + 'r) \<times> 'w"
  oss_DeleteObject :: "string \<Rightarrow> string \<Rightarrow> 'w \<Rightarrow> go_error option \<times> 'w"
  oss_ListObjects :: "string \<Rightarrow> oss_Option list \<Rightarrow> 'w \<Rightarrow> (go_error + oss_ListObjectsResult) \<times> 'w"
  oss_GetObjectDetailedMeta :: "string \<Rightarrow> string \<Rightarrow> 'w \<Rightarrow> (go_error + (string \<rightharpoonup> string list)) \<times> 'w"

text \<open>\<open>http.Header.Get\<close>: the first value of the name, or the empty string.\<close>

definition Header_Get :: "(string \<rightharpoonup> string list) \<Rightarrow> string \<Rightarrow> string" where
  "Header_Get props k = (case props k of Some (v # vs) \<Rightarrow> v | _ \<Rightarrow> [])"

definition oss_FileObject :: "oss_ObjectProperties \<Rightarrow> FileObject" where
  "oss_FileObject object =
     \<lparr>Name = op_Key object, Size = op_Size object, ContentType = op_Type object,
      LastModified = op_LastModified object, Metadata = Some Map.empty, IsDir = False\<rparr>"

definition OSSStorage_Upload ::
  "('w, 'r) oss_Client \<Rightarrow> string \<Rightarrow> string \<Rightarrow> string \<Rightarrow> int \<Rightarrow> string \<Rightarrow> 'w \<Rightarrow> go_error option \<times> 'w" where
  "OSSStorage_Upload o_client bucketName objectName reader sz contentType w =
     (case oss_Bucket o_client bucketName of
        Some err \<Rightarrow> (Some err, w)
      | None \<Rightarrow>
          oss_PutObject o_client bucketName objectName reader
            (if contentType \<noteq> [] then [oss_ContentType contentType] else []) w)"

definition OSSStorage_Download ::
  "('w, 'r) oss_Client \<Rightarrow> string \<Rightarrow> string \<Rightarrow> 'w \<Rightarrow> (go_error + 'r) \<times> 'w" where
  "OSSStorage_Download o_client bucketName objectName w =
     (case oss_Bucket o_client bucketName of
        Some err \<Rightarrow> (Inl err, w)
      | None \<Rightarrow> oss_GetObject o_client bucketName objectName w)"

definition OSSStorage_Delete ::
  "('w, 'r) oss_Client \<Rightarrow> string \<Rightarrow> string \<Rightarrow> 'w \<Rightarrow> go_error option \<times> 'w" where
  "OSSStorage_Delete o_client bucketName objectName w =
     (case oss_Bucket o_client bucketName of
        Some err \<Rightarrow> (Some err, w)
      | None \<Rightarrow> oss_DeleteObject o_client bucketName objectName w)"

text \<open>\<open>OSSStorage.List\<close>: one \<open>ListObjects\<close> request with \<open>MaxKeys(1000)\<close>; the
  result's \<open>IsTruncated\<close> and \<open>NextMarker\<close> are not read.\<close>

definition OSSStorage_List ::
  "('w, 'r) oss_Client \<Rightarrow> string \<Rightarrow> string \<Rightarrow> 'w \<Rightarrow> (go_error + FileObject list) \<times> 'w" where
  "OSSStorage_List o_client bucket prefix w =
     (case oss_Bucket o_client bucket of
        Some err \<Rightarrow> (Inl err, w)
      | None \<Rightarrow>
          (case oss_ListObjects o_client bucket [oss_Prefix prefix, oss_MaxKeys 1000] w of
             (Inl err, w1) \<Rightarrow> (Inl err, w1)
           | (Inr lsRes, w1) \<Rightarrow> (Inr (map oss_FileObject (lor_Objects lsRes)), w1)))"

definition OSSStorage_GetObjectInfo ::
  "('w, 'r) oss_Client \<Rightarrow> string \<Rightarrow> string \<Rightarrow> 'w \<Rightarrow> (go_error + FileObject) \<times> 'w" where
  "OSSStorage_GetObjectInfo o_client bucketName objectName w =
     (case oss_Bucket o_client bucketName of
        Some err \<Rightarrow> (Inl err, w)
      | None \<Rightarrow>
          (case oss_GetObjectDetailedMeta o_client bucketName objectName w of
             (Inl err, w1) \<Rightarrow> (Inl err, w1)
           | (Inr props, w1) \<Rightarrow>
               (Inr \<lparr>Name = objectName,
                     Size = fst (ParseInt (Header_Get props ''Content-Length'')),
                     ContentType = Header_Get props ''Content-Type'',
                     LastModified = Header_Get props ''Last-Modified'',
                     Metadata = Some (\<lambda>k. case props k of Some (v # vs) \<Rightarrow> Some v | _ \<Rightarrow> None),
                     IsDir = False\<rparr>, w1)))"

definition OSSStorage_CreateDirectory ::
  "('w, 'r) oss_Client \<Rightarrow> string \<Rightarrow> string \<Rightarrow> 'w \<Rightarrow> go_error option \<times> 'w" where
  "OSSStorage_CreateDirectory o_client bucket objectName w =
     (case oss_Bucket o_client bucket of
        Some err \<Rightarrow> (Some err, w)
      | None \<Rightarrow>
          oss_PutObject o_client bucket (with_slash objectName) []
            [oss_ContentType ''application/directory''] w)"

text \<open>The loop of \<open>OSSStorage.ListDirectories\<close> asks for the next page for as
  long as the provider says the result is truncated; it need not end, and
  \<open>None\<close> is the run that does not.\<close>

partial_function (option) OSSStorage_ListDirectories_loop ::
  "('w, 'r) oss_Client \<Rightarrow> string \<Rightarrow> string \<Rightarrow> string \<Rightarrow> FileObject list \<Rightarrow> 'w
     \<Rightarrow> ((go_error + FileObject list) \<times> 'w) option" where
  "OSSStorage_ListDirectories_loop o_client bucket prefix marker dirs w =
     (case oss_ListObjects o_client bucket [oss_Prefix prefix, oss_Delimiter ''/'', oss_Marker marker] w of
        (Inl err, w1) \<Rightarrow> Some (Inl err, w1)
      | (Inr lsRes, w1) \<Rightarrow>
          if lor_IsTruncated lsRes
          then OSSStorage_ListDirectories_loop o_client bucket prefix (lor_NextMarker lsRes)
                 (dirs @ map directory_record (lor_CommonPrefixes lsRes)) w1
          else Some (Inr (dirs @ map directory_record (lor_CommonPrefixes lsRes)), w1))"

definition OSSStorage_ListDirectories ::
  "('w, 'r) oss_Client \<Rightarrow> string \<Rightarrow> string \<Rightarrow> 'w \<Rightarrow> ((go_error + FileObject list) \<times> 'w) option" where
  "OSSStorage_ListDirectories o_client bucket prefix w =
     (case oss_Bucket o_client bucket of
        Some err \<Rightarrow> Some (Inl err, w)
      | None \<Rightarrow> OSSStorage_ListDirectories_loop o_client bucket prefix [] [] w)"

definition OSSStorage_EnsurePathExists ::
  "('w, 'r) oss_Client \<Rightarrow> string \<Rightarrow> string \<Rightarrow> 'w \<Rightarrow> go_error option \<times> 'w" where
  "OSSStorage_EnsurePathExists o_client bucket objectPath w =
     (let dir = Dir objectPath
      in if dir = ''.'' \<or> dir = ''/'' then (None, w)
         else
           (case oss_Bucket o_client bucket of
              Some err \<Rightarrow> (Some err, w)
            | None \<Rightarrow>
                (case oss_GetObjectDetailedMeta o_client bucket (with_slash dir) w of
                   (Inr props, w1) \<Rightarrow> (None, w1)
                 | (Inl err, w1) \<Rightarrow>
                     if as_oss_ServiceError err = Some ''NoSuchKey''
                     then OSSStorage_CreateDirectory o_client bucket (with_slash dir) w1
                     else (Some err, w1))))"

subsection \<open>Huawei OBS\<close>

record obs_Content =
  oc_Key :: string
  oc_Size :: int
  oc_StorageClass :: string
  oc_LastModified :: string

record obs_ListObjectsInput =
  li_Bucket :: string
  li_Prefix :: string
  li_Delimiter :: string

record obs_ListObjectsOutput =
  lo_Contents :: "obs_Content list"
  lo_CommonPrefixes :: "string list"

record obs_GetObjectMetadataOutput =
  mo_ContentType :: string
  mo_ContentLength :: int
  mo_LastModified :: string

text \<open>\<open>PutObject\<close> by the bucket, key, body and content type of its input.\<close>

record ('w, 'r) obs_Client =
  obs_PutObject :: "string \<Rightarrow> string \<Rightarrow> string \<Rightarrow> string \<Rightarrow> 'w \<Rightarrow> go_error option \<times> 'w"
  obs_GetObject :: "string \<Rightarrow> string \<Rightarrow> 'w \<Rightarrow> (go_error + 'r) \<times> 'w"
  obs_DeleteObject :: "string \<Rightarrow> string \<Rightarrow> 'w \<Rightarrow> go_error option \<times> 'w"
  obs_ListObjects :: "obs_ListObjectsInput \<Rightarrow> 'w \<Rightarrow> (go_error + obs_ListObjectsOutput) \<times> 'w"
  obs_GetObjectMetadata :: "string \<Rightarrow> string \<Rightarrow> 'w \<Rightarrow> (go_error + obs_GetObjectMetadataOutput) \<times> 'w"

definition OBStorage_Upload ::
  "('w, 'r) obs_Client \<Rightarrow> string \<Rightarrow> string \<Rightarrow> string \<Rightarrow> int \<Rightarrow> string \<Rightarrow> 'w \<Rightarrow> go_error option \<times> 'w" where
  "OBStorage_Upload o_client bucketName objectName reader sz contentType w =
     obs_PutObject o_client bucketName objectName reader
       (if contentType \<noteq> [] then contentType else []) w"

definition OBStorage_Download ::
  "('w, 'r) obs_Client \<Rightarrow> string \<Rightarrow> string \<Rightarrow> 'w \<Rightarrow> (go_error + 'r) \<times> 'w" where
  "OBStorage_Download o_client bucketName objectName w =
     (case obs_GetObject o_client bucketName objectName w of
        (Inl err, w1) \<Rightarrow> (Inl err, w1)
      | (Inr body, w1) \<Rightarrow> (Inr body, w1))"

definition OBStorage_Delete ::
  "('w, 'r) obs_Client \<Rightarrow> string \<Rightarrow> string \<Rightarrow> 'w \<Rightarrow> go_error option \<times> 'w" where
  "OBStorage_Delete o_client bucketName objectName w = obs_DeleteObject o_client bucketName objectName w"

definition obs_FileObject :: "obs_Content \<Rightarrow> FileObject" where
  "obs_FileObject object =
     \<lparr>Name = oc_Key object, Size = oc_Size object,
      ContentType = (if oc_StorageClass object = [] then ''application/octet-stream''
                     else oc_StorageClass object),
      LastModified = oc_LastModified object, Metadata = Some Map.empty, IsDir = False\<rparr>"

text \<open>\<open>OBStorage.List\<close>: one \<open>ListObjects\<close> request, by bucket and prefix.\<close>

definition OBStorage_List ::
  "('w, 'r) obs_Client \<Rightarrow> string \<Rightarrow> string \<Rightarrow> 'w \<Rightarrow> (go_error + FileObject list) \<times> 'w" where
  "OBStorage_List o_client bucketName prefix w =
     (case obs_ListObjects o_client \<lparr>li_Bucket = bucketName, li_Prefix = prefix, li_Delimiter = []\<rparr> w of
        (Inl err, w1) \<Rightarrow> (Inl err, w1)
      | (Inr output, w1) \<Rightarrow> (Inr (map obs_FileObject (lo_Contents output)), w1))"

definition OBStorage_GetObjectInfo ::
  "('w, 'r) obs_Client \<Rightarrow> string \<Rightarrow> string \<Rightarrow> 'w \<Rightarrow> (go_error + FileObject) \<times> 'w" where
  "OBStorage_GetObjectInfo o_client bucketName objectName w =
     (case obs_GetObjectMetadata o_client bucketName objectName w of
        (Inl err, w1) \<Rightarrow> (Inl err, w1)
      | (Inr output, w1) \<Rightarrow>
          (Inr \<lparr>Name = objectName, Size = mo_ContentLength output,
                ContentType = (if mo_ContentType output = [] then ''application/octet-stream''
                               else mo_ContentType output),
                LastModified = mo_LastModified output, Metadata = Some Map.empty,
                IsDir = False\<rparr>, w1))"

definition OBStorage_ListDirectories ::
  "('w, 'r) obs_Client \<Rightarrow> string \<Rightarrow> string \<Rightarrow> 'w \<Rightarrow> (go_error + FileObject list) \<times> 'w" where
  "OBStorage_ListDirectories o_client bucket prefix w =
     (case obs_ListObjects o_client \<lparr>li_Bucket = bucket, li_Prefix = prefix, li_Delimiter = ''/''\<rparr> w of
        (Inl err, w1) \<Rightarrow> (Inl err, w1)
      | (Inr result, w1) \<Rightarrow> (Inr (map directory_record (lo_CommonPrefixes result)), w1))"

definition OBStorage_CreateDirectory ::
  "('w, 'r) obs_Client \<Rightarrow> string \<Rightarrow> string \<Rightarrow> 'w \<Rightarrow> go_error option \<times> 'w" where
  "OBStorage_CreateDirectory o_client bucket objectName w =
     obs_PutObject o_client bucket (with_slash objectName) [] ''application/directory'' w"

definition OBStorage_EnsurePathExists ::
  "('w, 'r) obs_Client \<Rightarrow> string \<Rightarrow> string \<Rightarrow> 'w \<Rightarrow> go_error option \<times> 'w" where
  "OBStorage_EnsurePathExists o_client bucket objectPath w =
     (let dir = Dir objectPath
      in if dir = ''.'' \<or> dir = ''/'' then (None, w)
         else
           (case obs_GetObjectMetadata o_client bucket (with_slash dir) w of
              (Inr output, w1) \<Rightarrow> (None, w1)
            | (Inl err, w1) \<Rightarrow>
                if as_obs_ObsError err = Some ''NoSuchKey'' \<or> as_obs_ObsError err = Some ''404''
                then OBStorage_CreateDirectory o_client bucket (with_slash dir) w1
                else (Some err, w1)))"

subsection \<open>Azure Blob Storage\<close>

text \<open>The fields of a listed blob are pointers: \<open>None\<close> is the nil pointer.\<close>

record blob_Properties =
  bp_ContentType :: "string option"
  bp_LastModified :: "string option"
  bp_ContentLength :: "int option"

record BlobItem =
  bi_Name :: "string option"
  bi_Properties :: "blob_Properties option"

text \<open>
  The client. \<open>'p\<close> is the pager that \<open>NewListBlobsFlatPager\<close> makes from the
  container and the prefix (no request yet); \<open>More\<close> reads it and \<open>NextPage\<close>
  fetches a page, its blob items, and moves it on. An upload carries the
  content type of its options, if any. \<open>GetProperties\<close> stands for the call
  through the service, container and blob clients. \<open>time_Now\<close> is the clock.
\<close>

record ('w, 'r, 'p) azure_Client =
  az_UploadStream :: "string \<Rightarrow> string \<Rightarrow> string \<Rightarrow> string option \<Rightarrow> 'w \<Rightarrow> go_error option \<times> 'w"
  az_UploadBuffer :: "string \<Rightarrow> string \<Rightarrow> string \<Rightarrow> string option \<Rightarrow> 'w \<Rightarrow> go_error option \<times> 'w"
  az_DownloadStream :: "string \<Rightarrow> string \<Rightarrow> 'w \<Rightarrow> (go_error + 'r) \<times> 'w"
  az_DeleteBlob :: "string \<Rightarrow> string \<Rightarrow> 'w \<Rightarrow> go_error option \<times> 'w"
  az_NewListBlobsFlatPager :: "string \<Rightarrow> string \<Rightarrow> 'p"
  az_More :: "'p \<Rightarrow> bool"
  az_NextPage :: "'p \<Rightarrow> 'w \<Rightarrow> (go_error + BlobItem list) \<times> 'p \<times> 'w"
  az_GetProperties :: "string \<Rightarrow> string \<Rightarrow> 'w \<Rightarrow> (go_error + blob_Properties) \<times> 'w"
  time_Now :: "'w \<Rightarrow> string"

text \<open>What a call gives: a returned value, or a run-time panic (here the
  dereference of a nil pointer).\<close>

datatype 'a run = Returns 'a | Panics

definition AzureStorage_Upload ::
  "('w, 'r, 'p) azure_Client \<Rightarrow> string \<Rightarrow> string \<Rightarrow> string \<Rightarrow> int \<Rightarrow> string \<Rightarrow> 'w \<Rightarrow> go_error option \<times> 'w" where
  "AzureStorage_Upload a containerName blobName reader sz contentType w =
     az_UploadStream a containerName blobName reader
       (if contentType \<noteq> [] then Some contentType else None) w"

definition AzureStorage_Download ::
  "('w, 'r, 'p) azure_Client \<Rightarrow> string \<Rightarrow> string \<Rightarrow> 'w \<Rightarrow> (go_error + 'r) \<times> 'w" where
  "AzureStorage_Download a containerName blobName w =
     (case az_DownloadStream a containerName blobName w of
        (Inl err, w1) \<Rightarrow> (Inl err, w1)
      | (Inr body, w1) \<Rightarrow> (Inr body, w1))"

definition AzureStorage_Delete ::
  "('w, 'r, 'p) azure_Client \<Rightarrow> string \<Rightarrow> string \<Rightarrow> 'w \<Rightarrow> go_error option \<times> 'w" where
  "AzureStorage_Delete a containerName blobName w = az_DeleteBlob a containerName blobName w"

definition azure_FileObject :: "string \<Rightarrow> string \<Rightarrow> blob_Properties \<Rightarrow> FileObject" where
  "azure_FileObject now name props =
     \<lparr>Name = name,
      Size = (case bp_ContentLength props of None \<Rightarrow> 0 | Some n \<Rightarrow> n),
      ContentType = (case bp_ContentType props of None \<Rightarrow> ''application/octet-stream'' | Some t \<Rightarrow> t),
      LastModified = (case bp_LastModified props of None \<Rightarrow> now | Some t \<Rightarrow> t),
      Metadata = Some Map.empty, IsDir = False\<rparr>"

text \<open>The blobs of one page, appended to the objects; \<open>None\<close> when
  \<open>blob.Properties\<close> or \<open>blob.Name\<close> is nil, which the loop dereferences.\<close>

fun AzureStorage_List_blobs :: "string \<Rightarrow> BlobItem list \<Rightarrow> FileObject list \<Rightarrow> FileObject list option" where
  "AzureStorage_List_blobs now [] objects = Some objects"
| "AzureStorage_List_blobs now (blob # blobs) objects =
     (case bi_Properties blob of
        None \<Rightarrow> None
      | Some props \<Rightarrow>
          (case bi_Name blob of
             None \<Rightarrow> None
           | Some name \<Rightarrow>
               AzureStorage_List_blobs now blobs (objects @ [azure_FileObject now name props])))"

partial_function (option) AzureStorage_List_loop ::
  "('w, 'r, 'p) azure_Client \<Rightarrow> 'p \<Rightarrow> FileObject list \<Rightarrow> 'w
     \<Rightarrow> ((go_error + FileObject list) run \<times> 'w) option" where
  "AzureStorage_List_loop a pager objects w =
     (if az_More a pager then
        (case az_NextPage a pager w of
           (Inl err, pager1, w1) \<Rightarrow> Some (Returns (Inl err), w1)
         | (Inr blobs, pager1, w1) \<Rightarrow>
             (case AzureStorage_List_blobs (time_Now a w1) blobs objects of
                None \<Rightarrow> Some (Panics, w1)
              | Some objects1 \<Rightarrow> AzureStorage_List_loop a pager1 objects1 w1))
      else Some (Returns (Inr objects), w))"

definition AzureStorage_List ::
  "('w, 'r, 'p) azure_Client \<Rightarrow> string \<Rightarrow> string \<Rightarrow> 'w
     \<Rightarrow> ((go_error + FileObject list) run \<times> 'w) option" where
  "AzureStorage_List a containerName prefix w =
     AzureStorage_List_loop a (az_NewListBlobsFlatPager a containerName prefix) [] w"

definition AzureStorage_GetObjectInfo ::
  "('w, 'r, 'p) azure_Client \<Rightarrow> string \<Rightarrow> string \<Rightarrow> 'w \<Rightarrow> (go_error + FileObject) \<times> 'w" where
  "AzureStorage_GetObjectInfo a containerName blobName w =
     (case az_GetProperties a containerName blobName w of
        (Inl err, w1) \<Rightarrow> (Inl err, w1)
      | (Inr resp, w1) \<Rightarrow> (Inr (azure_FileObject (time_Now a w1) blobName resp), w1))"

text \<open>
  \<open>AzureStorage.ListDirectories\<close>. \<open>dirMap\<close> is the Go map from names to
  \<open>bool\<close>, read as \<open>false\<close> where it has no entry. For one blob name split at
  the slashes, \<open>i\<close> runs from 1 to the number of parts less one.
\<close>

definition AzureStorage_ListDirectories_part ::
  "string list \<Rightarrow> (string \<Rightarrow> bool) \<times> FileObject list \<Rightarrow> nat \<Rightarrow> (string \<Rightarrow> bool) \<times> FileObject list" where
  "AzureStorage_ListDirectories_part parts acc i =
     (let dirMap = fst acc; dirs = snd acc;
          dirPath = Join (take i parts) ''/'' @ ''/''
      in if \<not> dirMap dirPath
         then (dirMap(dirPath := True), dirs @ [directory_record dirPath])
         else (dirMap, dirs))"

definition AzureStorage_ListDirectories_blob ::
  "(string \<Rightarrow> bool) \<times> FileObject list \<Rightarrow> BlobItem \<Rightarrow> (string \<Rightarrow> bool) \<times> FileObject list" where
  "AzureStorage_ListDirectories_blob acc blob =
     (case bi_Name blob of
        None \<Rightarrow> acc
      | Some name \<Rightarrow>
          (let parts = Split name CHR ''/''
           in if 1 < length parts
              then foldl (AzureStorage_ListDirectories_part parts) acc [1..<length parts]
              else acc))"

partial_function (option) AzureStorage_ListDirectories_loop ::
  "('w, 'r, 'p) azure_Client \<Rightarrow> 'p \<Rightarrow> (string \<Rightarrow> bool) \<times> FileObject list \<Rightarrow> 'w
     \<Rightarrow> ((go_error + FileObject list) \<times> 'w) option" where
  "AzureStorage_ListDirectories_loop a pager acc w =
     (if az_More a pager then
        (case az_NextPage a pager w of
           (Inl err, pager1, w1) \<Rightarrow> Some (Inl err, w1)
         | (Inr blobs, pager1, w1) \<Rightarrow>
             AzureStorage_ListDirectories_loop a pager1
               (foldl AzureStorage_ListDirectories_blob acc blobs) w1)
      else Some (Inr (snd acc), w))"

definition AzureStorage_ListDirectories ::
  "('w, 'r, 'p) azure_Client \<Rightarrow> string \<Rightarrow> string \<Rightarrow> 'w \<Rightarrow> ((go_error + FileObject list) \<times> 'w) option" where
  "AzureStorage_ListDirectories a bucket prefix w =
     AzureStorage_ListDirectories_loop a (az_NewListBlobsFlatPager a bucket prefix)
       (\<lambda>dirPath. False, []) w"

definition AzureStorage_CreateDirectory ::
  "('w, 'r, 'p) azure_Client \<Rightarrow> string \<Rightarrow> string \<Rightarrow> 'w \<Rightarrow> go_error option \<times> 'w" where
  "AzureStorage_CreateDirectory a bucket objectName w =
     az_UploadBuffer a bucket (with_slash objectName) [] (Some ''application/directory'') w"

text \<open>\<open>AzureStorage.EnsurePathExists\<close> probes with \<open>DownloadStream\<close>; the
  response, whose body is an open stream, is dropped.\<close>

definition AzureStorage_EnsurePathExists ::
  "('w, 'r, 'p) azure_Client \<Rightarrow> string \<Rightarrow> string \<Rightarrow> 'w \<Rightarrow> go_error option \<times> 'w" where
  "AzureStorage_EnsurePathExists a bucket objectPath w =
     (let dir = Dir objectPath
      in if dir = ''.'' \<or> dir = ''/'' then (None, w)
         else
           (case az_DownloadStream a bucket (with_slash dir) w of
              (Inr body, w1) \<Rightarrow> (None, w1)
            | (Inl err, w1) \<Rightarrow>
                if errors_As_ResponseError err = Some 404
                then AzureStorage_CreateDirectory a bucket (with_slash dir) w1
                else (Some err, w1)))"

subsection \<open>Providers in memory, to run the adapters on\<close>

text \<open>
  Not part of the repository: stand-ins for the four SDK clients over one
  store held in memory, so that the adapters can be run on concrete inputs.
  The world is the list of the stored keys (bucket and key, in the order in
  which listings give them) and the log of the SDK calls made, each by the name
  of the operation and its text arguments. A stream is the key it reads.
  A listing with the delimiter \<open>/\<close> gives the common prefixes first (each
  once), then the keys with no further slash; a listing in pages gives at most
  the asked number of entries after the marker and says whether more follow.
  As in the SDKs, \<open>GetObject\<close> of MinIO makes no request (it returns the
  stream, and an absent key shows at the first read), and \<open>Bucket\<close> of OSS
  refuses a name of fewer than 3 or more than 63 bytes.
\<close>

datatype sdk_call = SDK string "string list"

record cloud =
  stored :: "(string \<times> string) list"
  sdk_calls :: "sdk_call list"

definition logging :: "sdk_call \<Rightarrow> cloud \<Rightarrow> cloud" where
  "logging call w = w\<lparr>sdk_calls := sdk_calls w @ [call]\<rparr>"

definition present :: "string \<Rightarrow> string \<Rightarrow> cloud \<Rightarrow> bool" where
  "present b k w = ((b, k) \<in> set (stored w))"

definition store :: "string \<Rightarrow> string \<Rightarrow> cloud \<Rightarrow> cloud" where
  "store b k w = w\<lparr>stored := (if present b k w then stored w else stored w @ [(b, k)])\<rparr>"

definition unstore :: "string \<Rightarrow> string \<Rightarrow> cloud \<Rightarrow> cloud" where
  "unstore b k w = w\<lparr>stored := removeAll (b, k) (stored w)\<rparr>"

definition keys_under :: "string \<Rightarrow> string \<Rightarrow> cloud \<Rightarrow> string list" where
  "keys_under b p w = map snd (filter (\<lambda>x. fst x = b \<and> HasPrefix (snd x) p) (stored w))"

definition grouped :: "string \<Rightarrow> string \<Rightarrow> bool" where
  "grouped p k = (CHR ''/'' \<in> set (drop (length p) k))"

definition common_prefix :: "string \<Rightarrow> string \<Rightarrow> string" where
  "common_prefix p k = p @ takeWhile (\<lambda>c. c \<noteq> CHR ''/'') (drop (length p) k) @ ''/''"

text \<open>The entries of a listing: a common prefix (\<open>True\<close>) or a key (\<open>False\<close>).\<close>

definition listing :: "string \<Rightarrow> string \<Rightarrow> string \<Rightarrow> cloud \<Rightarrow> (bool \<times> string) list" where
  "listing b p delimiter w =
     (if delimiter = ''/''
      then map (Pair True) (remdups (map (common_prefix p) (filter (grouped p) (keys_under b p w))))
             @ map (Pair False) (filter (\<lambda>k. \<not> grouped p k) (keys_under b p w))
      else map (Pair False) (keys_under b p w))"

definition after_marker :: "string \<Rightarrow> (bool \<times> string) list \<Rightarrow> (bool \<times> string) list" where
  "after_marker marker es =
     (if marker = [] then es else drop 1 (dropWhile (\<lambda>e. snd e \<noteq> marker) es))"

definition prefixes_of :: "(bool \<times> string) list \<Rightarrow> string list" where
  "prefixes_of es = map snd (filter fst es)"

definition keys_of :: "(bool \<times> string) list \<Rightarrow> string list" where
  "keys_of es = map snd (filter (\<lambda>e. \<not> fst e) es)"

definition minio_item :: "string \<Rightarrow> minio_ObjectInfo" where
  "minio_item k =
     \<lparr>oi_Key = k, oi_Size = 0, oi_ContentType = [], oi_LastModified = ''2024-01-01T00:00:00Z'',
      oi_UserMetadata = None, oi_Err = None\<rparr>"

definition minio_mem :: "(cloud, string) minio_Client" where
  "minio_mem =
     \<lparr>minio_PutObject = (\<lambda>b k body sz ct w.
         (None, store b k (logging (SDK ''PutObject'' [b, k, ct]) w))),
      minio_GetObject = (\<lambda>b k w. (Inr k, w)),
      minio_RemoveObject = (\<lambda>b k w.
         (None, unstore b k (logging (SDK ''RemoveObject'' [b, k]) w))),
      minio_ListObjects = (\<lambda>b p recursive w.
         (map (\<lambda>e. minio_item (snd e)) (listing b p (if recursive then [] else ''/'') w),
          logging (SDK ''ListObjects'' [b, p]) w)),
      minio_StatObject = (\<lambda>b k w.
         (if present b k w then Inr (minio_item k) else Inl (MinioErrorResponse ''NoSuchKey''),
          logging (SDK ''StatObject'' [b, k]) w))\<rparr>"

fun oss_prefix_of :: "oss_Option list \<Rightarrow> string" where
  "oss_prefix_of [] = []"
| "oss_prefix_of (oss_Prefix p # opts) = p"
| "oss_prefix_of (opt # opts) = oss_prefix_of opts"

fun oss_marker_of :: "oss_Option list \<Rightarrow> string" where
  "oss_marker_of [] = []"
| "oss_marker_of (oss_Marker m # opts) = m"
| "oss_marker_of (opt # opts) = oss_marker_of opts"

fun oss_delimiter_of :: "oss_Option list \<Rightarrow> string" where
  "oss_delimiter_of [] = []"
| "oss_delimiter_of (oss_Delimiter d # opts) = d"
| "oss_delimiter_of (opt # opts) = oss_delimiter_of opts"

fun oss_maxkeys_of :: "oss_Option list \<Rightarrow> nat" where
  "oss_maxkeys_of [] = 100"
| "oss_maxkeys_of (oss_MaxKeys n # opts) = nat n"
| "oss_maxkeys_of (opt # opts) = oss_maxkeys_of opts"

definition oss_item :: "string \<Rightarrow> oss_ObjectProperties" where
  "oss_item k = \<lparr>op_Key = k, op_Size = 0, op_Type = ''Normal'', op_LastModified = ''2024-01-01T00:00:00Z''\<rparr>"

definition oss_page :: "string \<Rightarrow> oss_Option list \<Rightarrow> cloud \<Rightarrow> oss_ListObjectsResult" where
  "oss_page b opts w =
     (let es = after_marker (oss_marker_of opts)
                 (listing b (oss_prefix_of opts) (oss_delimiter_of opts) w);
          page = take (oss_maxkeys_of opts) es;
          truncated = (oss_maxkeys_of opts < length es)
      in \<lparr>lor_Objects = map oss_item (keys_of page),
          lor_CommonPrefixes = prefixes_of page,
          lor_IsTruncated = truncated,
          lor_NextMarker = (if truncated \<and> page \<noteq> [] then snd (last page) else [])\<rparr>)"

definition oss_mem :: "(cloud, string) oss_Client" where
  "oss_mem =
     \<lparr>oss_Bucket = (\<lambda>b. if length b < 3 \<or> 63 < length b
         then Some (ErrorString ''bucket name invalid'') else None),
      oss_PutObject = (\<lambda>b k body opts w.
         (None, store b k (logging (SDK ''PutObject'' [b, k]) w))),
      oss_GetObject = (\<lambda>b k w.
         (if present b k w then Inr k else Inl (OssServiceError ''NoSuchKey''),
          logging (SDK ''GetObject'' [b, k]) w)),
      oss_DeleteObject = (\<lambda>b k w.
         (None, unstore b k (logging (SDK ''DeleteObject'' [b, k]) w))),
      oss_ListObjects = (\<lambda>b opts w.
         (Inr (oss_page b opts w),
          logging (SDK ''ListObjects'' [b, oss_prefix_of opts, oss_marker_of opts]) w)),
      oss_GetObjectDetailedMeta = (\<lambda>b k w.
         (if present b k w then Inr [''Content-Length'' \<mapsto> [''0'']]
          else Inl (OssServiceError ''NoSuchKey''),
          logging (SDK ''GetObjectDetailedMeta'' [b, k]) w))\<rparr>"

definition obs_mem :: "(cloud, string) obs_Client" where
  "obs_mem =
     \<lparr>obs_PutObject = (\<lambda>b k body ct w.
         (None, store b k (logging (SDK ''PutObject'' [b, k, ct]) w))),
      obs_GetObject = (\<lambda>b k w.
         (if present b k w then Inr k else Inl (ObsError ''NoSuchKey''),
          logging (SDK ''GetObject'' [b, k]) w)),
      obs_DeleteObject = (\<lambda>b k w.
         (None, unstore b k (logging (SDK ''DeleteObject'' [b, k]) w))),
      obs_ListObjects = (\<lambda>input w.
         (let es = take 1000 (listing (li_Bucket input) (li_Prefix input) (li_Delimiter input) w)
          in Inr \<lparr>lo_Contents =
                     map (\<lambda>k. \<lparr>oc_Key = k, oc_Size = 0, oc_StorageClass = ''STANDARD'',
                                oc_LastModified = ''2024-01-01T00:00:00Z''\<rparr>) (keys_of es),
                   lo_CommonPrefixes = prefixes_of es\<rparr>,
          logging (SDK ''ListObjects'' [li_Bucket input, li_Prefix input]) w)),
      obs_GetObjectMetadata = (\<lambda>b k w.
         (if present b k w
          then Inr \<lparr>mo_ContentType = [], mo_ContentLength = 0, mo_LastModified = ''2024-01-01T00:00:00Z''\<rparr>
          else Inl (ObsError ''NoSuchKey''),
          logging (SDK ''GetObjectMetadata'' [b, k]) w))\<rparr>"

text \<open>The Azure stand-in serves a flat listing in pages of \<open>n\<close> blobs; its pager
  is the container, the prefix and the number of blobs already served, or
  \<open>None\<close> when the last page has been served.\<close>

definition azure_item :: "string \<Rightarrow> BlobItem" where
  "azure_item k =
     \<lparr>bi_Name = Some k,
      bi_Properties = Some \<lparr>bp_ContentType = None, bp_LastModified = Some ''2024-01-01T00:00:00Z'',
                            bp_ContentLength = Some 0\<rparr>\<rparr>"

definition azure_mem :: "nat \<Rightarrow> (cloud, string, string \<times> string \<times> nat option) azure_Client" where
  "azure_mem n =
     \<lparr>az_UploadStream = (\<lambda>b k body ct w.
         (None, store b k (logging (SDK ''UploadStream'' [b, k]) w))),
      az_UploadBuffer = (\<lambda>b k body ct w.
         (None, store b k (logging (SDK ''UploadBuffer'' [b, k]) w))),
      az_DownloadStream = (\<lambda>b k w.
         (if present b k w then Inr k else Inl (AzureResponseError 404 ''BlobNotFound''),
          logging (SDK ''DownloadStream'' [b, k]) w)),
      az_DeleteBlob = (\<lambda>b k w.
         (if present b k w then None else Some (AzureResponseError 404 ''BlobNotFound''),
          unstore b k (logging (SDK ''DeleteBlob'' [b, k]) w))),
      az_NewListBlobsFlatPager = (\<lambda>b p. (b, p, Some 0)),
      az_More = (\<lambda>pager. snd (snd pager) \<noteq> None),
      az_NextPage = (\<lambda>pager w.
         (case snd (snd pager) of
            None \<Rightarrow> (Inl (ErrorString ''no more pages''), pager, w)
          | Some served \<Rightarrow>
              (let ks = keys_under (fst pager) (fst (snd pager)) w
               in (Inr (map azure_item (take n (drop served ks))),
                   (fst pager, fst (snd pager),
                    if served + n < length ks then Some (served + n) else None),
                   logging (SDK ''NextPage'' [fst pager, fst (snd pager)]) w)))),
      az_GetProperties = (\<lambda>b k w.
         (if present b k w
          then Inr \<lparr>bp_ContentType = None, bp_LastModified = Some ''2024-01-01T00:00:00Z'',
                    bp_ContentLength = Some 0\<rparr>
          else Inl (AzureResponseError 404 ''BlobNotFound''),
          logging (SDK ''GetProperties'' [b, k]) w)),
      time_Now = (\<lambda>w. ''2024-06-01T00:00:00Z'')\<rparr>"

subsection \<open>Notions the properties of the adapters are stated with\<close>

text \<open>An error whose dynamic type is an error type of a provider's SDK.\<close>

fun is_provider_error :: "go_error \<Rightarrow> bool" where
  "is_provider_error (MinioErrorResponse code) = True"
| "is_provider_error (OssServiceError code) = True"
| "is_provider_error (ObsError code) = True"
| "is_provider_error (AzureResponseError status code) = True"
| "is_provider_error (ErrorString msg) = False"
| "is_provider_error (WrapError msg e) = False"

text \<open>The errors that some call of the SDK client returns, and the errors that
  some operation of the adapter on that client returns.\<close>

definition minio_sdk_error :: "('w, 'r) minio_Client \<Rightarrow> go_error \<Rightarrow> bool" where
  "minio_sdk_error m e =
     ((\<exists>b k body sz ct w. fst (minio_PutObject m b k body sz ct w) = Some e)
      \<or> (\<exists>b k w. fst (minio_GetObject m b k w) = Inl e)
      \<or> (\<exists>b k w. fst (minio_RemoveObject m b k w) = Some e)
      \<or> (\<exists>b p r w. Some e \<in> set (map oi_Err (fst (minio_ListObjects m b p r w))))
      \<or> (\<exists>b k w. fst (minio_StatObject m b k w) = Inl e))"

definition MinIOStorage_error :: "('w, 'r) minio_Client \<Rightarrow> go_error \<Rightarrow> bool" where
  "MinIOStorage_error m e =
     ((\<exists>b k body sz ct w. fst (MinIOStorage_Upload m b k body sz ct w) = Some e)
      \<or> (\<exists>b k w. fst (MinIOStorage_Download m b k w) = Inl e)
      \<or> (\<exists>b k w. fst (MinIOStorage_Delete m b k w) = Some e)
      \<or> (\<exists>b p w. fst (MinIOStorage_List m b p w) = Inl e)
      \<or> (\<exists>b k w. fst (MinIOStorage_GetObjectInfo m b k w) = Inl e)
      \<or> (\<exists>b k w. fst (MinIOStorage_CreateDirectory m b k w) = Some e)
      \<or> (\<exists>b p w. fst (MinIOStorage_ListDirectories m b p w) = Inl e)
      \<or> (\<exists>b k w. fst (MinIOStorage_EnsurePathExists m b k w) = Some e))"

definition oss_sdk_error :: "('w, 'r) oss_Client \<Rightarrow> go_error \<Rightarrow> bool" where
  "oss_sdk_error c e =
     ((\<exists>b. oss_Bucket c b = Some e)
      \<or> (\<exists>b k body opts w. fst (oss_PutObject c b k body opts w) = Some e)
      \<or> (\<exists>b k w. fst (oss_GetObject c b k w) = Inl e)
      \<or> (\<exists>b k w. fst (oss_DeleteObject c b k w) = Some e)
      \<or> (\<exists>b opts w. fst (oss_ListObjects c b opts w) = Inl e)
      \<or> (\<exists>b k w. fst (oss_GetObjectDetailedMeta c b k w) = Inl e))"

definition OSSStorage_error :: "('w, 'r) oss_Client \<Rightarrow> go_error \<Rightarrow> bool" where
  "OSSStorage_error c e =
     ((\<exists>b k body sz ct w. fst (OSSStorage_Upload c b k body sz ct w) = Some e)
      \<or> (\<exists>b k w. fst (OSSStorage_Download c b k w) = Inl e)
      \<or> (\<exists>b k w. fst (OSSStorage_Delete c b k w) = Some e)
      \<or> (\<exists>b p w. fst (OSSStorage_List c b p w) = Inl e)
      \<or> (\<exists>b k w. fst (OSSStorage_GetObjectInfo c b k w) = Inl e)
      \<or> (\<exists>b k w. fst (OSSStorage_CreateDirectory c b k w) = Some e)
      \<or> (\<exists>b p w w'. OSSStorage_ListDirectories c b p w = Some (Inl e, w'))
      \<or> (\<exists>b k w. fst (OSSStorage_EnsurePathExists c b k w) = Some e))"

definition obs_sdk_error :: "('w, 'r) obs_Client \<Rightarrow> go_error \<Rightarrow> bool" where
  "obs_sdk_error c e =
     ((\<exists>b k body ct w. fst (obs_PutObject c b k body ct w) = Some e)
      \<or> (\<exists>b k w. fst (obs_GetObject c b k w) = Inl e)
      \<or> (\<exists>b k w. fst (obs_DeleteObject c b k w) = Some e)
      \<or> (\<exists>input w. fst (obs_ListObjects c input w) = Inl e)
      \<or> (\<exists>b k w. fst (obs_GetObjectMetadata c b k w) = Inl e))"

definition OBStorage_error :: "('w, 'r) obs_Client \<Rightarrow> go_error \<Rightarrow> bool" where
  "OBStorage_error c e =
     ((\<exists>b k body sz ct w. fst (OBStorage_Upload c b k body sz ct w) = Some e)
      \<or> (\<exists>b k w. fst (OBStorage_Download c b k w) = Inl e)
      \<or> (\<exists>b k w. fst (OBStorage_Delete c b k w) = Some e)
      \<or> (\<exists>b p w. fst (OBStorage_List c b p w) = Inl e)
      \<or> (\<exists>b k w. fst (OBStorage_GetObjectInfo c b k w) = Inl e)
      \<or> (\<exists>b k w. fst (OBStorage_CreateDirectory c b k w) = Some e)
      \<or> (\<exists>b p w. fst (OBStorage_ListDirectories c b p w) = Inl e)
      \<or> (\<exists>b k w. fst (OBStorage_EnsurePathExists c b k w) = Some e))"

definition azure_sdk_error :: "('w, 'r, 'p) azure_Client \<Rightarrow> go_error \<Rightarrow> bool" where
  "azure_sdk_error a e =
     ((\<exists>b k body ct w. fst (az_UploadStream a b k body ct w) = Some e)
      \<or> (\<exists>b k body ct w. fst (az_UploadBuffer a b k body ct w) = Some e)
      \<or> (\<exists>b k w. fst (az_DownloadStream a b k w) = Inl e)
      \<or> (\<exists>b k w. fst (az_DeleteBlob a b k w) = Some e)
      \<or> (\<exists>pager w. fst (az_NextPage a pager w) = Inl e)
      \<or> (\<exists>b k w. fst (az_GetProperties a b k w) = Inl e))"

definition AzureStorage_error :: "('w, 'r, 'p) azure_Client \<Rightarrow> go_error \<Rightarrow> bool" where
  "AzureStorage_error a e =
     ((\<exists>b k body sz ct w. fst (AzureStorage_Upload a b k body sz ct w) = Some e)
      \<or> (\<exists>b k w. fst (AzureStorage_Download a b k w) = Inl e)
      \<or> (\<exists>b k w. fst (AzureStorage_Delete a b k w) = Some e)
      \<or> (\<exists>b p w w'. AzureStorage_List a b p w = Some (Returns (Inl e), w'))
      \<or> (\<exists>b k w. fst (AzureStorage_GetObjectInfo a b k w) = Inl e)
      \<or> (\<exists>b k w. fst (AzureStorage_CreateDirectory a b k w) = Some e)
      \<or> (\<exists>b p w w'. AzureStorage_ListDirectories a b p w = Some (Inl e, w'))
      \<or> (\<exists>b k w. fst (AzureStorage_EnsurePathExists a b k w) = Some e))"





text \<open>An example: the bucket \<open>bkt\<close> with the 1001 keys \<open>a\<close>, \<open>aa\<close>, \<open>aaa\<close>, ...\<close>

definition big_keys :: "nat \<Rightarrow> string list" where
  "big_keys n = map (\<lambda>i. replicate (Suc i) CHR ''a'') [0..<n]"

definition big_bucket :: cloud where
  "big_bucket = \<lparr>stored = map (Pair ''bkt'') (big_keys 1001), sdk_calls = []\<rparr>"


definition tidy_cloud :: cloud where
  "tidy_cloud =
     \<lparr>stored = [(''box'', ''a/''), (''box'', ''a/c/d.txt''), (''box'', ''top.txt''), (''box'', ''x/y.txt'')],
      sdk_calls = []\<rparr>"

section \<open>The HTTP server (\<open>api/server.go\<close>)\<close>

subsection \<open>Routes\<close>

datatype handler =
    H_healthCheck
  | H_uploadFile
  | H_downloadFile
  | H_deleteObjects
  | H_deleteFile
  | H_listObjects
  | H_getObjectInfo

record route =
  r_method :: string
  r_pattern :: string
  r_authorized :: bool
  r_handler :: handler

text \<open>\<open>Server.registerRoutes\<close>: the routes it registers on the engine, in the
  order of the source; \<open>r_authorized\<close> says that the route is in the group
  that runs \<open>AuthMiddleware\<close>.\<close>

definition registerRoutes :: "route list" where
  "registerRoutes =
     [\<lparr>r_method = ''GET'', r_pattern = ''/health'', r_authorized = False, r_handler = H_healthCheck\<rparr>,
      \<lparr>r_method = ''POST'', r_pattern = ''/upload/:bucket/*object'', r_authorized = True, r_handler = H_uploadFile\<rparr>,
      \<lparr>r_method = ''GET'', r_pattern = ''/download/:bucket/*object'', r_authorized = True, r_handler = H_downloadFile\<rparr>,
      \<lparr>r_method = ''DELETE'', r_pattern = ''/delete/:bucket/*object'', r_authorized = True, r_handler = H_deleteFile\<rparr>,
      \<lparr>r_method = ''GET'', r_pattern = ''/list/:bucket'', r_authorized = True, r_handler = H_listObjects\<rparr>,
      \<lparr>r_method = ''GET'', r_pattern = ''/list/'', r_authorized = True, r_handler = H_listObjects\<rparr>,
      \<lparr>r_method = ''HEAD'', r_pattern = ''/info/:bucket/*object'', r_authorized = True, r_handler = H_getObjectInfo\<rparr>]"

subsection \<open>Requests, responses and the streams a handler touches\<close>

text \<open>
  What a handler reads of \<open>gin.Context\<close>: path parameters, query parameters
  and headers by name (each the empty string when absent) and the request body.
\<close>

record request =
  Param :: "string \<Rightarrow> string"
  Query :: "string \<Rightarrow> string"
  GetHeader :: "string \<Rightarrow> string"
  Body :: string

record Config =
  Storage_Type :: string
  Storage_Bucket :: string

text \<open>
  What a handler answers. A JSON error carries the status, the text before the
  error and the error that \<open>%v\<close> prints; the report of \<open>deleteObjects\<close> carries
  the deleted names and one entry (the name and the error) per failed deletion;
  an archive or a file is streamed through the world, the response keeps the
  headers. \<open>Panicked\<close> is a run-time panic of the handler (\<open>gin.Recovery\<close>
  answers it).
\<close>

datatype response =
    JSONError nat string go_error
  | JSONMessage nat string
  | HealthOK string
  | UploadOK string string
  | DeleteOK string string
  | ListOK string string "FileObject list"
  | DeleteReport string string "string list" "(string \<times> go_error) list"
  | ZipDownload string
  | FileDownload string
  | InfoHeaders string int string "(string \<rightharpoonup> string) option"
  | Panicked

text \<open>
  The stream operations of the download handler: \<open>zipWriter.Create\<close> (\<open>'f\<close> is
  the writer of the entry it opens), \<open>io.Copy\<close> into an entry, \<open>reader.Close\<close>,
  the deferred \<open>zipWriter.Close\<close>, and \<open>io.Copy\<close> into the response.
\<close>

record ('w, 'r, 'f) streams =
  zip_Create :: "string \<Rightarrow> 'w \<Rightarrow> (go_error + 'f) \<times> 'w"
  io_Copy_zip :: "'f \<Rightarrow> 'r \<Rightarrow> 'w \<Rightarrow> go_error option \<times> 'w"
  reader_Close :: "'r \<Rightarrow> 'w \<Rightarrow> 'w"
  zip_Close :: "'w \<Rightarrow> 'w"
  io_Copy_response :: "'r \<Rightarrow> 'w \<Rightarrow> go_error option \<times> 'w"

subsection \<open>Handlers\<close>

text \<open>The wildcard parameter with the leading slash that Gin adds removed.\<close>

definition strip_slash :: "string \<Rightarrow> string" where
  "strip_slash object = (if HasPrefix object ''/'' then drop 1 object else object)"

definition healthCheck :: "Config \<Rightarrow> 'w \<Rightarrow> response \<times> 'w" where
  "healthCheck cfg w = (HealthOK (Storage_Type cfg), w)"

text \<open>\<open>uploadFile\<close> takes the bucket as the request gives it; the configuration
  is at hand (\<open>s.config\<close>) and is not read.\<close>

definition uploadFile ::
  "('w, 'r) Storage \<Rightarrow> Config \<Rightarrow> request \<Rightarrow> 'w \<Rightarrow> response \<times> 'w" where
  "uploadFile st cfg c w =
     (let bucket = Param c ''bucket'';
          object = strip_slash (Param c ''object'')
      in case EnsurePathExists st bucket object w of
           (Some err, w1) \<Rightarrow> (JSONError 500 ''Failed to ensure path exists'' err, w1)
         | (None, w1) \<Rightarrow>
             (let contentType =
                    (if GetHeader c ''Content-Type'' = [] then ''application/octet-stream''
                     else GetHeader c ''Content-Type'');
                  contentLengthStr = GetHeader c ''Content-Length'';
                  parsed = (if contentLengthStr \<noteq> [] then ParseInt contentLengthStr else (0, None))
              in case parsed of
                   (n, Some err) \<Rightarrow> (JSONMessage 400 ''Invalid Content-Length header'', w1)
                 | (contentLength, None) \<Rightarrow>
                     (case Upload st bucket object (Body c) contentLength contentType w1 of
                        (Some err, w2) \<Rightarrow> (JSONError 500 ''Failed to upload file'' err, w2)
                      | (None, w2) \<Rightarrow> (UploadOK bucket object, w2))))"

text \<open>The bucket of the request, the configured default when it is empty.\<close>

definition bucket_or_default :: "Config \<Rightarrow> request \<Rightarrow> string" where
  "bucket_or_default cfg c =
     (if Param c ''bucket'' = [] then Storage_Bucket cfg else Param c ''bucket'')"

text \<open>
  The loop of the archive download over the listed objects. The entry name
  \<open>obj.Name[len(prefix):]\<close> is evaluated after the download has succeeded; the
  slice expression panics when the name is shorter than the prefix.
\<close>

fun zip_objects ::
  "('w, 'r) Storage \<Rightarrow> ('w, 'r, 'f) streams \<Rightarrow> string \<Rightarrow> string \<Rightarrow> FileObject list \<Rightarrow> 'w
     \<Rightarrow> bool \<times> 'w" where
  "zip_objects st io bucket prefix [] w = (True, w)"
| "zip_objects st io bucket prefix (obj # objs) w =
     (if IsDir obj \<or> HasSuffix (Name obj) ''/'' then zip_objects st io bucket prefix objs w
      else
        (case Download st bucket (Name obj) w of
           (Inl err, w1) \<Rightarrow> zip_objects st io bucket prefix objs w1
         | (Inr reader, w1) \<Rightarrow>
             if length (Name obj) < length prefix then (False, w1)
             else
               (case zip_Create io (drop (length prefix) (Name obj)) w1 of
                  (Inl err, w2) \<Rightarrow>
                    zip_objects st io bucket prefix objs (reader_Close io reader w2)
                | (Inr zipFileWriter, w2) \<Rightarrow>
                    (case io_Copy_zip io zipFileWriter reader w2 of
                       (err, w3) \<Rightarrow>
                         zip_objects st io bucket prefix objs (reader_Close io reader w3)))))"

definition downloadFile ::
  "('w, 'r) Storage \<Rightarrow> ('w, 'r, 'f) streams \<Rightarrow> Config \<Rightarrow> request \<Rightarrow> 'w \<Rightarrow> response \<times> 'w" where
  "downloadFile st io cfg c w =
     (let bucket = bucket_or_default cfg c;
          object = strip_slash (Param c ''object'')
      in if Query c ''directory'' = ''true'' then
           (let prefix = (if object \<noteq> [] \<and> \<not> HasSuffix object ''/'' then object @ ''/'' else object)
            in case List st bucket prefix w of
                 (Inl err, w1) \<Rightarrow> (JSONError 500 ''Failed to list objects'' err, w1)
               | (Inr objects, w1) \<Rightarrow>
                   (case zip_objects st io bucket prefix objects w1 of
                      (completed, w2) \<Rightarrow>
                        (if completed then ZipDownload (Base (TrimSuffix prefix ''/'') @ ''.zip'')
                         else Panicked,
                         zip_Close io w2)))
         else
           (case Download st bucket object w of
              (Inl err, w1) \<Rightarrow> (JSONError 500 ''Failed to download file'' err, w1)
            | (Inr reader, w1) \<Rightarrow>
                (case GetObjectInfo st bucket object w1 of
                   (Inl err, w2) \<Rightarrow>
                     (JSONError 500 ''Failed to get file info'' err, reader_Close io reader w2)
                 | (Inr info, w2) \<Rightarrow>
                     (case io_Copy_response io reader w2 of
                        (Some err, w3) \<Rightarrow>
                          (JSONError 500 ''Failed to stream file'' err, reader_Close io reader w3)
                      | (None, w3) \<Rightarrow>
                          (FileDownload (ContentType info), reader_Close io reader w3)))))"

text \<open>The loop of \<open>deleteObjects\<close>, with its two result slices.\<close>

fun delete_each ::
  "('w, 'r) Storage \<Rightarrow> string \<Rightarrow> FileObject list \<Rightarrow> string list \<Rightarrow> (string \<times> go_error) list \<Rightarrow> 'w
     \<Rightarrow> string list \<times> (string \<times> go_error) list \<times> 'w" where
  "delete_each st bucket [] deleted errors w = (deleted, errors, w)"
| "delete_each st bucket (obj # objs) deleted errors w =
     (case Delete st bucket (Name obj) w of
        (Some err, w1) \<Rightarrow> delete_each st bucket objs deleted (errors @ [(Name obj, err)]) w1
      | (None, w1) \<Rightarrow> delete_each st bucket objs (deleted @ [Name obj]) errors w1)"

definition deleteObjects ::
  "('w, 'r) Storage \<Rightarrow> Config \<Rightarrow> request \<Rightarrow> 'w \<Rightarrow> response \<times> 'w" where
  "deleteObjects st cfg c w =
     (let bucket = bucket_or_default cfg c;
          prefix = strip_slash (Param c ''prefix'')
      in case List st bucket prefix w of
           (Inl err, w1) \<Rightarrow> (JSONError 500 ''Failed to list objects'' err, w1)
         | (Inr objects, w1) \<Rightarrow>
             (case delete_each st bucket objects [] [] w1 of
                (deleted, errors, w2) \<Rightarrow> (DeleteReport bucket prefix deleted errors, w2)))"

definition deleteFile ::
  "('w, 'r) Storage \<Rightarrow> Config \<Rightarrow> request \<Rightarrow> 'w \<Rightarrow> response \<times> 'w" where
  "deleteFile st cfg c w =
     (let bucket = bucket_or_default cfg c;
          object = strip_slash (Param c ''object'')
      in case Delete st bucket object w of
           (Some err, w1) \<Rightarrow> (JSONError 500 ''Failed to delete file'' err, w1)
         | (None, w1) \<Rightarrow> (DeleteOK bucket object, w1))"

definition listObjects ::
  "('w, 'r) Storage \<Rightarrow> Config \<Rightarrow> request \<Rightarrow> 'w \<Rightarrow> response \<times> 'w" where
  "listObjects st cfg c w =
     (let bucket = bucket_or_default cfg c;
          prefix = (if Query c ''prefix'' = [] then strip_slash (Param c ''prefix'')
                    else Query c ''prefix'')
      in case List st bucket prefix w of
           (Inl err, w1) \<Rightarrow> (JSONError 500 ''Failed to list objects'' err, w1)
         | (Inr objects, w1) \<Rightarrow> (ListOK bucket prefix objects, w1))"

definition getObjectInfo ::
  "('w, 'r) Storage \<Rightarrow> Config \<Rightarrow> request \<Rightarrow> 'w \<Rightarrow> response \<times> 'w" where
  "getObjectInfo st cfg c w =
     (let bucket = bucket_or_default cfg c;
          object = strip_slash (Param c ''object'')
      in case GetObjectInfo st bucket object w of
           (Inl err, w1) \<Rightarrow> (JSONError 500 ''Failed to get object info'' err, w1)
         | (Inr info, w1) \<Rightarrow>
             (InfoHeaders (ContentType info) (Size info) (LastModified info) (Metadata info), w1))"

subsection \<open>The calls a handler makes\<close>

text \<open>
  To state which calls a handler makes, a storage and its streams are wrapped:
  the wrapped operation does what the operation does and appends the call, with
  its outcome where a property needs it, to a log kept beside the world.
\<close>

datatype 'r event =
    Call_Upload string string string int string
  | Call_Download string string "go_error + 'r"
  | Call_Delete string string "go_error option"
  | Call_List string string
  | Call_GetObjectInfo string string
  | Call_CreateDirectory string string
  | Call_ListDirectories string string
  | Call_EnsurePathExists string string
  | Call_zip_Create string bool
  | Call_io_Copy_zip 'r bool
  | Call_reader_Close 'r
  | Call_zip_Close
  | Call_io_Copy_response 'r bool

definition logged :: "('w, 'r) Storage \<Rightarrow> ('w \<times> 'r event list, 'r) Storage" where
  "logged st =
     \<lparr>Upload = (\<lambda>b n body size ct (w, l).
         case Upload st b n body size ct w of
           (e, w') \<Rightarrow> (e, (w', l @ [Call_Upload b n body size ct]))),
      Download = (\<lambda>b n (w, l).
         case Download st b n w of (r, w') \<Rightarrow> (r, (w', l @ [Call_Download b n r]))),
      Delete = (\<lambda>b n (w, l).
         case Delete st b n w of (e, w') \<Rightarrow> (e, (w', l @ [Call_Delete b n e]))),
      List = (\<lambda>b p (w, l).
         case List st b p w of (r, w') \<Rightarrow> (r, (w', l @ [Call_List b p]))),
      GetObjectInfo = (\<lambda>b n (w, l).
         case GetObjectInfo st b n w of (r, w') \<Rightarrow> (r, (w', l @ [Call_GetObjectInfo b n]))),
      CreateDirectory = (\<lambda>b n (w, l).
         case CreateDirectory st b n w of (e, w') \<Rightarrow> (e, (w', l @ [Call_CreateDirectory b n]))),
      ListDirectories = (\<lambda>b p (w, l).
         case ListDirectories st b p w of (r, w') \<Rightarrow> (r, (w', l @ [Call_ListDirectories b p]))),
      EnsurePathExists = (\<lambda>b n (w, l).
         case EnsurePathExists st b n w of
           (e, w') \<Rightarrow> (e, (w', l @ [Call_EnsurePathExists b n])))\<rparr>"

definition logged_streams ::
  "('w, 'r, 'f) streams \<Rightarrow> ('w \<times> 'r event list, 'r, 'f) streams" where
  "logged_streams io =
     \<lparr>zip_Create = (\<lambda>n (w, l).
         case zip_Create io n w of
           (r, w') \<Rightarrow> (r, (w', l @ [Call_zip_Create n (\<not> isl r)]))),
      io_Copy_zip = (\<lambda>f r (w, l).
         case io_Copy_zip io f r w of
           (e, w') \<Rightarrow> (e, (w', l @ [Call_io_Copy_zip r (e = None)]))),
      reader_Close = (\<lambda>r (w, l). (reader_Close io r w, l @ [Call_reader_Close r])),
      zip_Close = (\<lambda>(w, l). (zip_Close io w, l @ [Call_zip_Close])),
      io_Copy_response = (\<lambda>r (w, l).
         case io_Copy_response io r w of
           (e, w') \<Rightarrow> (e, (w', l @ [Call_io_Copy_response r (e = None)])))\<rparr>"

text \<open>Readings of a log: the streams that downloads opened and the streams
  that were closed, the names whose download was asked for, the downloads that
  failed, and the archive entries created and refused.\<close>

fun opened :: "'r event list \<Rightarrow> 'r list" where
  "opened [] = []"
| "opened (Call_Download b n (Inr r) # evs) = r # opened evs"
| "opened (ev # evs) = opened evs"

fun closed :: "'r event list \<Rightarrow> 'r list" where
  "closed [] = []"
| "closed (Call_reader_Close r # evs) = r # closed evs"
| "closed (ev # evs) = closed evs"

fun downloads :: "'r event list \<Rightarrow> (string \<times> string) list" where
  "downloads [] = []"
| "downloads (Call_Download b n r # evs) = (b, n) # downloads evs"
| "downloads (ev # evs) = downloads evs"

fun failed_downloads :: "'r event list \<Rightarrow> (string \<times> string) list" where
  "failed_downloads [] = []"
| "failed_downloads (Call_Download b n (Inl e) # evs) = (b, n) # failed_downloads evs"
| "failed_downloads (ev # evs) = failed_downloads evs"

fun entries :: "'r event list \<Rightarrow> string list" where
  "entries [] = []"
| "entries (Call_zip_Create n True # evs) = n # entries evs"
| "entries (ev # evs) = entries evs"

fun refused_entries :: "'r event list \<Rightarrow> string list" where
  "refused_entries [] = []"
| "refused_entries (Call_zip_Create n False # evs) = n # refused_entries evs"
| "refused_entries (ev # evs) = refused_entries evs"

fun deletions :: "'r event list \<Rightarrow> (string \<times> string \<times> go_error option) list" where
  "deletions [] = []"
| "deletions (Call_Delete b n e # evs) = (b, n, e) # deletions evs"
| "deletions (ev # evs) = deletions evs"

text \<open>A record that the archive loop skips as a directory.\<close>

definition is_directory_record :: "FileObject \<Rightarrow> bool" where
  "is_directory_record obj = (IsDir obj \<or> HasSuffix (Name obj) ''/'')"

text \<open>
  What the archive loop does for one record that is not a directory: the
  download fails; or the stream opens and the entry is refused; or the entry is
  created and the stream is copied into it, with or without an error. The calls
  of each case, in order.
\<close>

datatype 'r attempt =
    Download_failed go_error
  | Create_failed 'r
  | Copied 'r bool

fun attempt_events :: "string \<Rightarrow> string \<Rightarrow> FileObject \<Rightarrow> 'r attempt \<Rightarrow> 'r event list" where
  "attempt_events bucket prefix obj (Download_failed e) =
     [Call_Download bucket (Name obj) (Inl e)]"
| "attempt_events bucket prefix obj (Create_failed r) =
     [Call_Download bucket (Name obj) (Inr r),
      Call_zip_Create (drop (length prefix) (Name obj)) False,
      Call_reader_Close r]"
| "attempt_events bucket prefix obj (Copied r ok) =
     [Call_Download bucket (Name obj) (Inr r),
      Call_zip_Create (drop (length prefix) (Name obj)) True,
      Call_io_Copy_zip r ok,
      Call_reader_Close r]"

text \<open>An attempt after which the archive holds an entry for the record, and the
  records, of those attempted, that have their entry.\<close>

fun got_entry :: "'r attempt \<Rightarrow> bool" where
  "got_entry (Download_failed e) = False"
| "got_entry (Create_failed r) = False"
| "got_entry (Copied r ok) = True"

definition archived :: "FileObject list \<Rightarrow> 'r attempt list \<Rightarrow> FileObject list" where
  "archived files atts = map fst (filter (\<lambda>p. got_entry (snd p)) (zip files atts))"

subsection \<open>A storage in memory, to run the handlers on\<close>

text \<open>
  Not part of the repository: a small storage and archive held in memory, so
  that the handlers can be run on concrete requests. The world lists the
  stored objects (bucket, record, content), the names for which a download, a
  deletion or the creation of an archive entry reports an error, and the
  entries of the archive written so far. A stream is the name and the content
  of its object.
\<close>

record mem =
  contents :: "(string \<times> FileObject \<times> string) list"
  faulty :: "string list"
  archive :: "(string \<times> string) list"

definition mem_is :: "string \<Rightarrow> string \<Rightarrow> string \<times> FileObject \<times> string \<Rightarrow> bool" where
  "mem_is b n entry = (fst entry = b \<and> Name (fst (snd entry)) = n)"

definition mem_Storage :: "(mem, string \<times> string) Storage" where
  "mem_Storage =
     \<lparr>Upload = (\<lambda>b n body size ct w.
         (None, w\<lparr>contents := filter (\<lambda>x. \<not> mem_is b n x) (contents w) @
            [(b, \<lparr>Name = n, Size = int (length body), ContentType = ct, LastModified = [],
                  Metadata = Some Map.empty, IsDir = False\<rparr>, body)]\<rparr>)),
      Download = (\<lambda>b n w.
         (if n \<in> set (faulty w) then Inl (ErrorString ''unavailable'')
          else (case find (mem_is b n) (contents w) of
                  None \<Rightarrow> Inl (ErrorString ''not found'')
                | Some x \<Rightarrow> Inr (n, snd (snd x))), w)),
      Delete = (\<lambda>b n w.
         if n \<in> set (faulty w) then (Some (ErrorString ''unavailable''), w)
         else (None, w\<lparr>contents := filter (\<lambda>x. \<not> mem_is b n x) (contents w)\<rparr>)),
      List = (\<lambda>b p w.
         (Inr (map (\<lambda>x. fst (snd x))
                 (filter (\<lambda>x. fst x = b \<and> HasPrefix (Name (fst (snd x))) p) (contents w))), w)),
      GetObjectInfo = (\<lambda>b n w.
         (case find (mem_is b n) (contents w) of
            None \<Rightarrow> Inl (ErrorString ''not found'')
          | Some x \<Rightarrow> Inr (fst (snd x)), w)),
      CreateDirectory = (\<lambda>b n w. (None, w)),
      ListDirectories = (\<lambda>b p w. (Inr [], w)),
      EnsurePathExists = (\<lambda>b n w. (None, w))\<rparr>"

definition mem_streams :: "(mem, string \<times> string, string) streams" where
  "mem_streams =
     \<lparr>zip_Create = (\<lambda>n w.
         if n \<in> set (faulty w) then (Inl (ErrorString ''refused''), w)
         else (Inr n, w\<lparr>archive := archive w @ [(n, [])]\<rparr>)),
      io_Copy_zip = (\<lambda>f r w.
         (None, w\<lparr>archive := map (\<lambda>e. if fst e = f then (fst e, snd e @ snd r) else e) (archive w)\<rparr>)),
      reader_Close = (\<lambda>r w. w),
      zip_Close = (\<lambda>w. w),
      io_Copy_response = (\<lambda>r w. (None, w))\<rparr>"

text \<open>The same streams, but the copy from a stream of one of the given names
  fails before a byte is written.\<close>

definition unreadable_streams :: "string list \<Rightarrow> (mem, string \<times> string, string) streams" where
  "unreadable_streams names =
     mem_streams\<lparr>io_Copy_zip := (\<lambda>f r w.
        if fst r \<in> set names then (Some (ErrorString ''read failed''), w)
        else io_Copy_zip mem_streams f r w)\<rparr>"

text \<open>A file of the given bucket, name and content, and a directory marker.\<close>

definition mem_file :: "string \<Rightarrow> string \<Rightarrow> string \<Rightarrow> string \<times> FileObject \<times> string" where
  "mem_file b n content =
     (b, \<lparr>Name = n, Size = int (length content), ContentType = ''application/octet-stream'',
          LastModified = [], Metadata = Some Map.empty, IsDir = False\<rparr>, content)"

definition mem_marker :: "string \<Rightarrow> string \<Rightarrow> string \<times> FileObject \<times> string" where
  "mem_marker b n =
     (b, \<lparr>Name = n, Size = 0, ContentType = ''application/directory'',
          LastModified = [], Metadata = Some Map.empty, IsDir = False\<rparr>, [])"

text \<open>A request with the given path parameters and query parameters and no
  headers or body.\<close>

definition mem_request :: "(string \<times> string) list \<Rightarrow> (string \<times> string) list \<Rightarrow> request" where
  "mem_request params query =
     \<lparr>Param = (\<lambda>k. case map_of params k of None \<Rightarrow> [] | Some v \<Rightarrow> v),
      Query = (\<lambda>k. case map_of query k of None \<Rightarrow> [] | Some v \<Rightarrow> v),
      GetHeader = (\<lambda>k. []),
      Body = []\<rparr>"

text \<open>An example: bucket \<open>b\<close> holds the marker \<open>a/\<close> and the files \<open>a/x.txt\<close> and
  \<open>a/y.txt\<close>; the names in \<open>broken\<close> are the faulty ones. The request leaves the
  bucket empty and names the directory \<open>a\<close>.\<close>

definition example_world :: "string list \<Rightarrow> mem" where
  "example_world broken =
     \<lparr>contents = [mem_marker ''b'' ''a/'', mem_file ''b'' ''a/x.txt'' ''X'', mem_file ''b'' ''a/y.txt'' ''Y''],
      faulty = broken, archive = []\<rparr>"

definition example_config :: Config where
  "example_config = \<lparr>Storage_Type = ''minio'', Storage_Bucket = ''b''\<rparr>"

definition example_request :: request where
  "example_request =
     mem_request [(''bucket'', []), (''object'', ''/a''), (''prefix'', ''/a/'')] [(''directory'', ''true'')]"

text \<open>The report that the outcomes of the deletions give: the names deleted, and
  the name and the error of each deletion that failed.\<close>

fun reported_deleted :: "(string \<times> string \<times> go_error option) list \<Rightarrow> string list" where
  "reported_deleted [] = []"
| "reported_deleted ((b, n, None) # ds) = n # reported_deleted ds"
| "reported_deleted ((b, n, Some e) # ds) = reported_deleted ds"

fun reported_errors :: "(string \<times> string \<times> go_error option) list \<Rightarrow> (string \<times> go_error) list" where
  "reported_errors [] = []"
| "reported_errors ((b, n, None) # ds) = reported_errors ds"
| "reported_errors ((b, n, Some e) # ds) = (n, e) # reported_errors ds"

section \<open>Properties\<close>

subsection \<open>The adapters on the providers in memory\<close>

lemmas cloud_defs = logging_def present_def store_def unstore_def keys_under_def grouped_def
  common_prefix_def listing_def after_marker_def prefixes_of_def keys_of_def
  HasPrefix_def HasSuffix_def with_slash_def Dir_def Clean_def Let_def

subsection \<open>Listing\<close>

lemma keys_of_flat: "keys_of (take n (map (Pair False) ks)) = take n ks"
proof (induction ks arbitrary: n)
  case Nil
  then show ?case by (simp add: keys_of_def)
next
  case (Cons k ks)
  then show ?case by (cases n) (simp_all add: keys_of_def)
qed

lemma prefixes_of_flat: "prefixes_of (take n (map (Pair False) ks)) = []"
proof (induction ks arbitrary: n)
  case Nil
  then show ?case by (simp add: prefixes_of_def)
next
  case (Cons k ks)
  then show ?case by (cases n) (simp_all add: prefixes_of_def)
qed

lemma OSSStorage_List_mem:
  assumes "3 \<le> length b" "length b \<le> 63"
  shows "OSSStorage_List oss_mem b p w =
           (Inr (map (\<lambda>k. oss_FileObject (oss_item k)) (take 1000 (keys_under b p w))),
            logging (SDK ''ListObjects'' [b, p, []]) w)"
  using assms
  by (simp add: OSSStorage_List_def oss_mem_def oss_page_def listing_def after_marker_def
      keys_of_flat Let_def)

lemma length_big_keys: "length (big_keys n) = n"
  by (simp add: big_keys_def)

lemma keys_under_big_bucket: "keys_under ''bkt'' [] big_bucket = big_keys 1001"
  by (simp add: keys_under_def big_bucket_def HasPrefix_def filter_map o_def)

text \<open>
  C1. A bucket with 1001 keys under the prefix, on a provider that serves at
  most the asked number of keys per request: \<open>OSSStorage.List\<close> makes one
  \<open>ListObjects\<close> request and returns the first 1000 keys; the last key is
  missing from the result.
\<close>

theorem C1_oss_list_stops_at_1000:
  "length (keys_under ''bkt'' [] big_bucket) = 1001
   \<and> (\<exists>objs w'. OSSStorage_List oss_mem ''bkt'' [] big_bucket = (Inr objs, w')
         \<and> map Name objs = take 1000 (keys_under ''bkt'' [] big_bucket)
         \<and> length objs = 1000
         \<and> sdk_calls w' = [SDK ''ListObjects'' [''bkt'', [], []]])"
proof -
  have b: "3 \<le> length ''bkt''" "length ''bkt'' \<le> 63" by simp_all
  have n: "length (keys_under ''bkt'' [] big_bucket) = 1001"
    by (simp only: keys_under_big_bucket length_big_keys)
  let ?objs = "map (\<lambda>k. oss_FileObject (oss_item k)) (take 1000 (keys_under ''bkt'' [] big_bucket))"
  have names: "map Name ?objs = take 1000 (keys_under ''bkt'' [] big_bucket)"
    by (simp add: oss_FileObject_def oss_item_def o_def)
  have len: "length ?objs = 1000"
    using n by simp
  have calls: "sdk_calls (logging (SDK ''ListObjects'' [''bkt'', [], []]) big_bucket) =
      [SDK ''ListObjects'' [''bkt'', [], []]]"
    by (simp add: logging_def big_bucket_def)
  from OSSStorage_List_mem [OF b, of "[]" big_bucket] n names len calls show ?thesis
    by blast
qed

subsection \<open>Errors\<close>

lemma MinIOStorage_List_loop_error:
  "MinIOStorage_List_loop objectCh objs = Inl e \<Longrightarrow> Some e \<in> set (map oi_Err objectCh)"
  by (induction objectCh arbitrary: objs) (auto split: option.splits)

lemma MinIOStorage_ListDirectories_loop_error:
  "MinIOStorage_ListDirectories_loop objectCh dirs = Inl e \<Longrightarrow> Some e \<in> set (map oi_Err objectCh)"
  by (induction objectCh arbitrary: dirs) (auto split: option.splits if_splits)

lemma minio_sdk_errorI:
  "fst (minio_PutObject m b k body sz ct w) = Some e \<Longrightarrow> minio_sdk_error m e"
  "fst (minio_GetObject m b k w) = Inl e \<Longrightarrow> minio_sdk_error m e"
  "fst (minio_RemoveObject m b k w) = Some e \<Longrightarrow> minio_sdk_error m e"
  "Some e \<in> set (map oi_Err (fst (minio_ListObjects m b p r w))) \<Longrightarrow> minio_sdk_error m e"
  "fst (minio_StatObject m b k w) = Inl e \<Longrightarrow> minio_sdk_error m e"
  unfolding minio_sdk_error_def by blast+

lemma MinIOStorage_List_error:
  assumes "fst (MinIOStorage_List m b p w) = Inl e"
  shows "minio_sdk_error m e"
proof -
  obtain items w1 where l: "minio_ListObjects m b p True w = (items, w1)"
    by (cases "minio_ListObjects m b p True w")
  with assms have "MinIOStorage_List_loop items [] = Inl e"
    by (simp add: MinIOStorage_List_def)
  from MinIOStorage_List_loop_error [OF this] l
  have "Some e \<in> set (map oi_Err (fst (minio_ListObjects m b p True w)))" by simp
  then show ?thesis by (rule minio_sdk_errorI)
qed

lemma MinIOStorage_ListDirectories_error:
  assumes "fst (MinIOStorage_ListDirectories m b p w) = Inl e"
  shows "minio_sdk_error m e"
proof -
  obtain items w1 where l: "minio_ListObjects m b p False w = (items, w1)"
    by (cases "minio_ListObjects m b p False w")
  with assms have "MinIOStorage_ListDirectories_loop items [] = Inl e"
    by (simp add: MinIOStorage_ListDirectories_def)
  from MinIOStorage_ListDirectories_loop_error [OF this] l
  have "Some e \<in> set (map oi_Err (fst (minio_ListObjects m b p False w)))" by simp
  then show ?thesis by (rule minio_sdk_errorI)
qed

lemma MinIOStorage_GetObjectInfo_error:
  assumes "fst (MinIOStorage_GetObjectInfo m b k w) = Inl e"
  shows "minio_sdk_error m e"
proof -
  from assms have "fst (minio_StatObject m b k w) = Inl e"
    by (auto simp: MinIOStorage_GetObjectInfo_def split: prod.splits sum.splits)
  then show ?thesis by (rule minio_sdk_errorI)
qed

lemma MinIOStorage_EnsurePathExists_error:
  assumes "fst (MinIOStorage_EnsurePathExists m b k w) = Some e"
  shows "minio_sdk_error m e"
proof -
  from assms have "fst (minio_StatObject m b (with_slash (Dir k)) w) = Inl e
       \<or> (\<exists>w1. fst (minio_PutObject m b (with_slash (with_slash (Dir k))) [] 0 ''application/directory'' w1) = Some e)"
    by (auto simp: MinIOStorage_EnsurePathExists_def MinIOStorage_CreateDirectory_def Let_def
          split: prod.splits sum.splits if_splits)
  then show ?thesis by (auto intro: minio_sdk_errorI)
qed

lemma MinIOStorage_errors:
  assumes "MinIOStorage_error m e"
  shows "minio_sdk_error m e"
  using assms unfolding MinIOStorage_error_def
  by (elim disjE exE)
     (auto intro: minio_sdk_errorI MinIOStorage_List_error MinIOStorage_ListDirectories_error
        MinIOStorage_GetObjectInfo_error MinIOStorage_EnsurePathExists_error
        simp: MinIOStorage_Upload_def MinIOStorage_Download_def MinIOStorage_Delete_def
          MinIOStorage_CreateDirectory_def)

lemma oss_sdk_errorI:
  "oss_Bucket c b = Some e \<Longrightarrow> oss_sdk_error c e"
  "fst (oss_PutObject c b k body opts w) = Some e \<Longrightarrow> oss_sdk_error c e"
  "fst (oss_GetObject c b k w) = Inl e \<Longrightarrow> oss_sdk_error c e"
  "fst (oss_DeleteObject c b k w) = Some e \<Longrightarrow> oss_sdk_error c e"
  "fst (oss_ListObjects c b opts w) = Inl e \<Longrightarrow> oss_sdk_error c e"
  "fst (oss_GetObjectDetailedMeta c b k w) = Inl e \<Longrightarrow> oss_sdk_error c e"
  unfolding oss_sdk_error_def by blast+

lemma OSSStorage_ListDirectories_loop_error':
  assumes "OSSStorage_ListDirectories_loop c b p marker dirs w = Some res"
  shows "\<forall>e w'. res = (Inl e, w') \<longrightarrow> oss_sdk_error c e"
proof (rule OSSStorage_ListDirectories_loop.raw_induct
    [where P = "\<lambda>c b p marker dirs w res. \<forall>e w'. res = (Inl e, w') \<longrightarrow> oss_sdk_error c e", OF _ assms])
  fix loop and c :: "('a, 'b) oss_Client" and b p marker dirs w res
  assume IH: "\<And>c b p marker dirs w res. loop c b p marker dirs w = Some res \<Longrightarrow>
                \<forall>e w'. res = (Inl e, w') \<longrightarrow> oss_sdk_error c e"
    and body: "(case oss_ListObjects c b [oss_Prefix p, oss_Delimiter ''/'', oss_Marker marker] w of
        (Inl err, w1) \<Rightarrow> Some (Inl err, w1)
      | (Inr lsRes, w1) \<Rightarrow>
          if lor_IsTruncated lsRes
          then loop c b p (lor_NextMarker lsRes)
                 (dirs @ map directory_record (lor_CommonPrefixes lsRes)) w1
          else Some (Inr (dirs @ map directory_record (lor_CommonPrefixes lsRes)), w1)) = Some res"
  obtain r w1 where l: "oss_ListObjects c b [oss_Prefix p, oss_Delimiter ''/'', oss_Marker marker] w = (r, w1)"
    by (cases "oss_ListObjects c b [oss_Prefix p, oss_Delimiter ''/'', oss_Marker marker] w")
  show "\<forall>e w'. res = (Inl e, w') \<longrightarrow> oss_sdk_error c e"
  proof (cases r)
    case (Inl err)
    with body l have res: "res = (Inl err, w1)" by simp
    from l Inl have "fst (oss_ListObjects c b [oss_Prefix p, oss_Delimiter ''/'', oss_Marker marker] w) = Inl err"
      by simp
    then have "oss_sdk_error c err" by (rule oss_sdk_errorI(5))
    with res show ?thesis by simp
  next
    case (Inr lsRes)
    show ?thesis
    proof (cases "lor_IsTruncated lsRes")
      case True
      with body l Inr have "loop c b p (lor_NextMarker lsRes)
          (dirs @ map directory_record (lor_CommonPrefixes lsRes)) w1 = Some res" by simp
      then show ?thesis by (rule IH)
    next
      case False
      with body l Inr have "res = (Inr (dirs @ map directory_record (lor_CommonPrefixes lsRes)), w1)"
        by simp
      then show ?thesis by simp
    qed
  qed
qed

lemma OSSStorage_ListDirectories_loop_error:
  assumes "OSSStorage_ListDirectories_loop c b p marker dirs w = Some (Inl e, w')"
  shows "oss_sdk_error c e"
  using OSSStorage_ListDirectories_loop_error' [OF assms] by simp

lemma OSSStorage_Upload_error:
  "fst (OSSStorage_Upload c b k body sz ct w) = Some e \<Longrightarrow> oss_sdk_error c e"
  by (cases "oss_Bucket c b") (auto simp: OSSStorage_Upload_def intro: oss_sdk_errorI)

lemma OSSStorage_Download_error:
  "fst (OSSStorage_Download c b k w) = Inl e \<Longrightarrow> oss_sdk_error c e"
  by (cases "oss_Bucket c b") (auto simp: OSSStorage_Download_def intro: oss_sdk_errorI)

lemma OSSStorage_Delete_error:
  "fst (OSSStorage_Delete c b k w) = Some e \<Longrightarrow> oss_sdk_error c e"
  by (cases "oss_Bucket c b") (auto simp: OSSStorage_Delete_def intro: oss_sdk_errorI)

lemma OSSStorage_List_error:
  assumes "fst (OSSStorage_List c b p w) = Inl e"
  shows "oss_sdk_error c e"
proof (cases "oss_Bucket c b")
  case (Some err)
  with assms show ?thesis by (auto simp: OSSStorage_List_def intro: oss_sdk_errorI)
next
  case None
  obtain r w1 where l: "oss_ListObjects c b [oss_Prefix p, oss_MaxKeys 1000] w = (r, w1)"
    by (cases "oss_ListObjects c b [oss_Prefix p, oss_MaxKeys 1000] w")
  with assms None have "r = Inl e" by (cases r) (simp_all add: OSSStorage_List_def)
  with l have "fst (oss_ListObjects c b [oss_Prefix p, oss_MaxKeys 1000] w) = Inl e" by simp
  then show ?thesis by (rule oss_sdk_errorI)
qed

lemma OSSStorage_GetObjectInfo_error:
  assumes "fst (OSSStorage_GetObjectInfo c b k w) = Inl e"
  shows "oss_sdk_error c e"
proof (cases "oss_Bucket c b")
  case (Some err)
  with assms show ?thesis by (auto simp: OSSStorage_GetObjectInfo_def intro: oss_sdk_errorI)
next
  case None
  obtain r w1 where l: "oss_GetObjectDetailedMeta c b k w = (r, w1)"
    by (cases "oss_GetObjectDetailedMeta c b k w")
  with assms None have "r = Inl e" by (cases r) (simp_all add: OSSStorage_GetObjectInfo_def)
  with l have "fst (oss_GetObjectDetailedMeta c b k w) = Inl e" by simp
  then show ?thesis by (rule oss_sdk_errorI)
qed

lemma OSSStorage_CreateDirectory_error:
  "fst (OSSStorage_CreateDirectory c b k w) = Some e \<Longrightarrow> oss_sdk_error c e"
  by (cases "oss_Bucket c b") (auto simp: OSSStorage_CreateDirectory_def intro: oss_sdk_errorI)

lemma OSSStorage_ListDirectories_error:
  "OSSStorage_ListDirectories c b p w = Some (Inl e, w') \<Longrightarrow> oss_sdk_error c e"
  by (cases "oss_Bucket c b")
     (auto simp: OSSStorage_ListDirectories_def intro: oss_sdk_errorI OSSStorage_ListDirectories_loop_error)

lemma OSSStorage_EnsurePathExists_error:
  assumes "fst (OSSStorage_EnsurePathExists c b k w) = Some e"
  shows "oss_sdk_error c e"
proof (cases "Dir k = ''.'' \<or> Dir k = ''/''")
  case True
  with assms show ?thesis by (simp add: OSSStorage_EnsurePathExists_def)
next
  case False
  show ?thesis
  proof (cases "oss_Bucket c b")
    case (Some err)
    with assms False show ?thesis
      by (auto simp: OSSStorage_EnsurePathExists_def intro: oss_sdk_errorI)
  next
    case None
    obtain r w1 where l: "oss_GetObjectDetailedMeta c b (with_slash (Dir k)) w = (r, w1)"
      by (cases "oss_GetObjectDetailedMeta c b (with_slash (Dir k)) w")
    show ?thesis
    proof (cases r)
      case (Inr props)
      with assms False None l show ?thesis by (simp add: OSSStorage_EnsurePathExists_def)
    next
      case (Inl err)
      show ?thesis
      proof (cases "as_oss_ServiceError err = Some ''NoSuchKey''")
        case True
        with assms False None l Inl
        have "fst (OSSStorage_CreateDirectory c b (with_slash (Dir k)) w1) = Some e"
          by (simp add: OSSStorage_EnsurePathExists_def)
        then show ?thesis by (rule OSSStorage_CreateDirectory_error)
      next
        case no: False
        with assms False None l Inl have "err = e" by (simp add: OSSStorage_EnsurePathExists_def)
        with l Inl have "fst (oss_GetObjectDetailedMeta c b (with_slash (Dir k)) w) = Inl e" by simp
        then show ?thesis by (rule oss_sdk_errorI)
      qed
    qed
  qed
qed

lemma OSSStorage_errors:
  assumes "OSSStorage_error c e"
  shows "oss_sdk_error c e"
  using assms unfolding OSSStorage_error_def
  by (elim disjE exE)
     (erule OSSStorage_Upload_error OSSStorage_Download_error OSSStorage_Delete_error
        OSSStorage_List_error OSSStorage_GetObjectInfo_error OSSStorage_CreateDirectory_error
        OSSStorage_ListDirectories_error OSSStorage_EnsurePathExists_error)+

lemma obs_sdk_errorI:
  "fst (obs_PutObject c b k body ct w) = Some e \<Longrightarrow> obs_sdk_error c e"
  "fst (obs_GetObject c b k w) = Inl e \<Longrightarrow> obs_sdk_error c e"
  "fst (obs_DeleteObject c b k w) = Some e \<Longrightarrow> obs_sdk_error c e"
  "fst (obs_ListObjects c input w) = Inl e \<Longrightarrow> obs_sdk_error c e"
  "fst (obs_GetObjectMetadata c b k w) = Inl e \<Longrightarrow> obs_sdk_error c e"
  unfolding obs_sdk_error_def by blast+

lemma OBStorage_Download_error:
  assumes "fst (OBStorage_Download c b k w) = Inl e"
  shows "obs_sdk_error c e"
proof -
  obtain r w1 where l: "obs_GetObject c b k w = (r, w1)" by (cases "obs_GetObject c b k w")
  with assms have "r = Inl e" by (cases r) (simp_all add: OBStorage_Download_def)
  with l have "fst (obs_GetObject c b k w) = Inl e" by simp
  then show ?thesis by (rule obs_sdk_errorI)
qed

lemma OBStorage_List_error:
  assumes "fst (OBStorage_List c b p w) = Inl e"
  shows "obs_sdk_error c e"
proof -
  let ?input = "\<lparr>li_Bucket = b, li_Prefix = p, li_Delimiter = []\<rparr>"
  obtain r w1 where l: "obs_ListObjects c ?input w = (r, w1)" by (cases "obs_ListObjects c ?input w")
  with assms have "r = Inl e" by (cases r) (simp_all add: OBStorage_List_def)
  with l have "fst (obs_ListObjects c ?input w) = Inl e" by simp
  then show ?thesis by (rule obs_sdk_errorI)
qed

lemma OBStorage_ListDirectories_error:
  assumes "fst (OBStorage_ListDirectories c b p w) = Inl e"
  shows "obs_sdk_error c e"
proof -
  let ?input = "\<lparr>li_Bucket = b, li_Prefix = p, li_Delimiter = ''/''\<rparr>"
  obtain r w1 where l: "obs_ListObjects c ?input w = (r, w1)" by (cases "obs_ListObjects c ?input w")
  with assms have "r = Inl e" by (cases r) (simp_all add: OBStorage_ListDirectories_def)
  with l have "fst (obs_ListObjects c ?input w) = Inl e" by simp
  then show ?thesis by (rule obs_sdk_errorI)
qed

lemma OBStorage_GetObjectInfo_error:
  assumes "fst (OBStorage_GetObjectInfo c b k w) = Inl e"
  shows "obs_sdk_error c e"
proof -
  obtain r w1 where l: "obs_GetObjectMetadata c b k w = (r, w1)"
    by (cases "obs_GetObjectMetadata c b k w")
  with assms have "r = Inl e" by (cases r) (simp_all add: OBStorage_GetObjectInfo_def)
  with l have "fst (obs_GetObjectMetadata c b k w) = Inl e" by simp
  then show ?thesis by (rule obs_sdk_errorI)
qed

lemma OBStorage_CreateDirectory_error:
  "fst (OBStorage_CreateDirectory c b k w) = Some e \<Longrightarrow> obs_sdk_error c e"
  unfolding OBStorage_CreateDirectory_def by (rule obs_sdk_errorI)

lemma OBStorage_EnsurePathExists_error:
  assumes "fst (OBStorage_EnsurePathExists c b k w) = Some e"
  shows "obs_sdk_error c e"
proof (cases "Dir k = ''.'' \<or> Dir k = ''/''")
  case True
  with assms show ?thesis by (simp add: OBStorage_EnsurePathExists_def)
next
  case False
  obtain r w1 where l: "obs_GetObjectMetadata c b (with_slash (Dir k)) w = (r, w1)"
    by (cases "obs_GetObjectMetadata c b (with_slash (Dir k)) w")
  show ?thesis
  proof (cases r)
    case (Inr out)
    with assms False l show ?thesis by (simp add: OBStorage_EnsurePathExists_def)
  next
    case (Inl err)
    show ?thesis
    proof (cases "as_obs_ObsError err = Some ''NoSuchKey'' \<or> as_obs_ObsError err = Some ''404''")
      case True
      with assms False l Inl
      have "fst (OBStorage_CreateDirectory c b (with_slash (Dir k)) w1) = Some e"
        by (simp add: OBStorage_EnsurePathExists_def)
      then show ?thesis by (rule OBStorage_CreateDirectory_error)
    next
      case no: False
      with assms False l Inl have "err = e" by (simp add: OBStorage_EnsurePathExists_def)
      with l Inl have "fst (obs_GetObjectMetadata c b (with_slash (Dir k)) w) = Inl e" by simp
      then show ?thesis by (rule obs_sdk_errorI)
    qed
  qed
qed

lemma OBStorage_errors:
  assumes "OBStorage_error c e"
  shows "obs_sdk_error c e"
  using assms unfolding OBStorage_error_def OBStorage_Upload_def OBStorage_Delete_def
  by (elim disjE exE)
     (erule obs_sdk_errorI OBStorage_Download_error OBStorage_List_error
        OBStorage_GetObjectInfo_error OBStorage_CreateDirectory_error
        OBStorage_ListDirectories_error OBStorage_EnsurePathExists_error)+

lemma azure_sdk_errorI:
  "fst (az_UploadStream a b k body ct w) = Some e \<Longrightarrow> azure_sdk_error a e"
  "fst (az_UploadBuffer a b k body ct w) = Some e \<Longrightarrow> azure_sdk_error a e"
  "fst (az_DownloadStream a b k w) = Inl e \<Longrightarrow> azure_sdk_error a e"
  "fst (az_DeleteBlob a b k w) = Some e \<Longrightarrow> azure_sdk_error a e"
  "fst (az_NextPage a pager w) = Inl e \<Longrightarrow> azure_sdk_error a e"
  "fst (az_GetProperties a b k w) = Inl e \<Longrightarrow> azure_sdk_error a e"
  unfolding azure_sdk_error_def by auto

lemma AzureStorage_List_loop_error':
  assumes "AzureStorage_List_loop a pager objs w = Some res"
  shows "\<forall>e w'. res = (Returns (Inl e), w') \<longrightarrow> azure_sdk_error a e"
proof (rule AzureStorage_List_loop.raw_induct
    [where P = "\<lambda>a pager objs w res. \<forall>e w'. res = (Returns (Inl e), w') \<longrightarrow> azure_sdk_error a e", OF _ assms])
  fix loop and a :: "('a, 'b, 'c) azure_Client" and pager objs w res
  assume IH: "\<And>a pager objs w res. loop a pager objs w = Some res \<Longrightarrow>
                \<forall>e w'. res = (Returns (Inl e), w') \<longrightarrow> azure_sdk_error a e"
    and body: "(if az_More a pager then
        (case az_NextPage a pager w of
           (Inl err, pager1, w1) \<Rightarrow> Some (Returns (Inl err), w1)
         | (Inr blobs, pager1, w1) \<Rightarrow>
             (case AzureStorage_List_blobs (time_Now a w1) blobs objs of
                None \<Rightarrow> Some (Panics, w1)
              | Some objects1 \<Rightarrow> loop a pager1 objects1 w1))
      else Some (Returns (Inr objs), w)) = Some res"
  show "\<forall>e w'. res = (Returns (Inl e), w') \<longrightarrow> azure_sdk_error a e"
  proof (cases "az_More a pager")
    case False
    with body have "res = (Returns (Inr objs), w)" by simp
    then show ?thesis by simp
  next
    case True
    obtain r pager1 w1 where n: "az_NextPage a pager w = (r, pager1, w1)"
      by (cases "az_NextPage a pager w")
    show ?thesis
    proof (cases r)
      case (Inl err)
      with body True n have res: "res = (Returns (Inl err), w1)" by simp
      from n Inl have "fst (az_NextPage a pager w) = Inl err" by simp
      then have "azure_sdk_error a err" by (rule azure_sdk_errorI(5))
      with res show ?thesis by simp
    next
      case (Inr blobs)
      show ?thesis
      proof (cases "AzureStorage_List_blobs (time_Now a w1) blobs objs")
        case None
        with body True n Inr have "res = (Panics, w1)" by simp
        then show ?thesis by simp
      next
        case (Some objs1)
        with body True n Inr have "loop a pager1 objs1 w1 = Some res" by simp
        then show ?thesis by (rule IH)
      qed
    qed
  qed
qed

lemma AzureStorage_List_loop_error:
  assumes "AzureStorage_List_loop a pager objs w = Some (Returns (Inl e), w')"
  shows "azure_sdk_error a e"
  using AzureStorage_List_loop_error' [OF assms] by simp

lemma AzureStorage_ListDirectories_loop_error':
  assumes "AzureStorage_ListDirectories_loop a pager acc w = Some res"
  shows "\<forall>e w'. res = (Inl e, w') \<longrightarrow> azure_sdk_error a e"
proof (rule AzureStorage_ListDirectories_loop.raw_induct
    [where P = "\<lambda>a pager acc w res. \<forall>e w'. res = (Inl e, w') \<longrightarrow> azure_sdk_error a e", OF _ assms])
  fix loop and a :: "('a, 'b, 'c) azure_Client" and pager acc w res
  assume IH: "\<And>a pager acc w res. loop a pager acc w = Some res \<Longrightarrow>
                \<forall>e w'. res = (Inl e, w') \<longrightarrow> azure_sdk_error a e"
    and body: "(if az_More a pager then
        (case az_NextPage a pager w of
           (Inl err, pager1, w1) \<Rightarrow> Some (Inl err, w1)
         | (Inr blobs, pager1, w1) \<Rightarrow>
             loop a pager1 (foldl AzureStorage_ListDirectories_blob acc blobs) w1)
      else Some (Inr (snd acc), w)) = Some res"
  show "\<forall>e w'. res = (Inl e, w') \<longrightarrow> azure_sdk_error a e"
  proof (cases "az_More a pager")
    case False
    with body have "res = (Inr (snd acc), w)" by simp
    then show ?thesis by simp
  next
    case True
    obtain r pager1 w1 where n: "az_NextPage a pager w = (r, pager1, w1)"
      by (cases "az_NextPage a pager w")
    show ?thesis
    proof (cases r)
      case (Inl err)
      with body True n have res: "res = (Inl err, w1)" by simp
      from n Inl have "fst (az_NextPage a pager w) = Inl err" by simp
      then have "azure_sdk_error a err" by (rule azure_sdk_errorI(5))
      with res show ?thesis by simp
    next
      case (Inr blobs)
      with body True n have "loop a pager1 (foldl AzureStorage_ListDirectories_blob acc blobs) w1 = Some res"
        by simp
      then show ?thesis by (rule IH)
    qed
  qed
qed

lemma AzureStorage_ListDirectories_loop_error:
  assumes "AzureStorage_ListDirectories_loop a pager acc w = Some (Inl e, w')"
  shows "azure_sdk_error a e"
  using AzureStorage_ListDirectories_loop_error' [OF assms] by simp

lemma AzureStorage_Download_error:
  assumes "fst (AzureStorage_Download a b k w) = Inl e"
  shows "azure_sdk_error a e"
proof -
  obtain r w1 where l: "az_DownloadStream a b k w = (r, w1)" by (cases "az_DownloadStream a b k w")
  with assms have "r = Inl e" by (cases r) (simp_all add: AzureStorage_Download_def)
  with l have "fst (az_DownloadStream a b k w) = Inl e" by simp
  then show ?thesis by (rule azure_sdk_errorI)
qed

lemma AzureStorage_GetObjectInfo_error:
  assumes "fst (AzureStorage_GetObjectInfo a b k w) = Inl e"
  shows "azure_sdk_error a e"
proof -
  obtain r w1 where l: "az_GetProperties a b k w = (r, w1)" by (cases "az_GetProperties a b k w")
  with assms have "r = Inl e" by (cases r) (simp_all add: AzureStorage_GetObjectInfo_def)
  with l have "fst (az_GetProperties a b k w) = Inl e" by simp
  then show ?thesis by (rule azure_sdk_errorI)
qed

lemma AzureStorage_CreateDirectory_error:
  "fst (AzureStorage_CreateDirectory a b k w) = Some e \<Longrightarrow> azure_sdk_error a e"
  unfolding AzureStorage_CreateDirectory_def by (rule azure_sdk_errorI)

lemma AzureStorage_EnsurePathExists_error:
  assumes "fst (AzureStorage_EnsurePathExists a b k w) = Some e"
  shows "azure_sdk_error a e"
proof (cases "Dir k = ''.'' \<or> Dir k = ''/''")
  case True
  with assms show ?thesis by (simp add: AzureStorage_EnsurePathExists_def)
next
  case False
  obtain r w1 where l: "az_DownloadStream a b (with_slash (Dir k)) w = (r, w1)"
    by (cases "az_DownloadStream a b (with_slash (Dir k)) w")
  show ?thesis
  proof (cases r)
    case (Inr body)
    with assms False l show ?thesis by (simp add: AzureStorage_EnsurePathExists_def)
  next
    case (Inl err)
    show ?thesis
    proof (cases "errors_As_ResponseError err = Some 404")
      case True
      with assms False l Inl
      have "fst (AzureStorage_CreateDirectory a b (with_slash (Dir k)) w1) = Some e"
        by (simp add: AzureStorage_EnsurePathExists_def)
      then show ?thesis by (rule AzureStorage_CreateDirectory_error)
    next
      case no: False
      with assms False l Inl have "err = e" by (simp add: AzureStorage_EnsurePathExists_def)
      with l Inl have "fst (az_DownloadStream a b (with_slash (Dir k)) w) = Inl e" by simp
      then show ?thesis by (rule azure_sdk_errorI)
    qed
  qed
qed

lemma AzureStorage_errors:
  assumes "AzureStorage_error a e"
  shows "azure_sdk_error a e"
  using assms
  unfolding AzureStorage_error_def AzureStorage_Upload_def AzureStorage_Delete_def
    AzureStorage_List_def AzureStorage_ListDirectories_def
  by (elim disjE exE)
     (erule azure_sdk_errorI AzureStorage_Download_error AzureStorage_GetObjectInfo_error
        AzureStorage_CreateDirectory_error AzureStorage_EnsurePathExists_error
        AzureStorage_List_loop_error AzureStorage_ListDirectories_loop_error)+

text \<open>
  C2, as stated, fails: a download of an absent blob through the Azure adapter
  returns the SDK's \<open>ResponseError\<close> (status 404, code \<open>BlobNotFound\<close>), and
  \<open>GetObjectInfo\<close> of an absent key through the MinIO adapter returns the SDK's
  \<open>ErrorResponse\<close> (code \<open>NoSuchKey\<close>): errors of the providers' own types.
\<close>

theorem C2_raw_provider_error_counterexample:
  "fst (AzureStorage_Download (azure_mem 2) ''box'' ''missing.txt'' tidy_cloud) =
     Inl (AzureResponseError 404 ''BlobNotFound'')
   \<and> is_provider_error (AzureResponseError 404 ''BlobNotFound'')
   \<and> fst (MinIOStorage_GetObjectInfo minio_mem ''box'' ''missing.txt'' tidy_cloud) =
     Inl (MinioErrorResponse ''NoSuchKey'')
   \<and> is_provider_error (MinioErrorResponse ''NoSuchKey'')"
  by (simp add: AzureStorage_Download_def MinIOStorage_GetObjectInfo_def azure_mem_def minio_mem_def
      tidy_cloud_def cloud_defs)

text \<open>
  C2, amended. Every error that an operation of an adapter returns (upload,
  download, delete, list, object info, create directory, list directories,
  ensure path) is an error that a call of its SDK client returned, unchanged:
  the adapters make no error of their own and map none.
\<close>

theorem C2_errors_pass_through:
  "(MinIOStorage_error m e1 \<longrightarrow> minio_sdk_error m e1)
   \<and> (OSSStorage_error oc e2 \<longrightarrow> oss_sdk_error oc e2)
   \<and> (OBStorage_error ob e3 \<longrightarrow> obs_sdk_error ob e3)
   \<and> (AzureStorage_error a e4 \<longrightarrow> azure_sdk_error a e4)"
  using MinIOStorage_errors [of m e1] OSSStorage_errors [of oc e2] OBStorage_errors [of ob e3]
    AzureStorage_errors [of a e4]
  by simp

text \<open>On each provider in memory an absent key is answered with the provider's
  own not-found error: by the download on OSS, OBS and Azure, by
  \<open>GetObjectInfo\<close> on MinIO.\<close>

theorem C2_errors_pass_through_witness:
  "MinIOStorage_error minio_mem (MinioErrorResponse ''NoSuchKey'')
   \<and> minio_sdk_error minio_mem (MinioErrorResponse ''NoSuchKey'')
   \<and> OSSStorage_error oss_mem (OssServiceError ''NoSuchKey'')
   \<and> oss_sdk_error oss_mem (OssServiceError ''NoSuchKey'')
   \<and> OBStorage_error obs_mem (ObsError ''NoSuchKey'')
   \<and> obs_sdk_error obs_mem (ObsError ''NoSuchKey'')
   \<and> AzureStorage_error (azure_mem 2) (AzureResponseError 404 ''BlobNotFound'')
   \<and> azure_sdk_error (azure_mem 2) (AzureResponseError 404 ''BlobNotFound'')"
proof -
  have "fst (MinIOStorage_GetObjectInfo minio_mem ''box'' ''missing.txt'' tidy_cloud) =
          Inl (MinioErrorResponse ''NoSuchKey'')"
    by (simp add: MinIOStorage_GetObjectInfo_def minio_mem_def tidy_cloud_def cloud_defs)
  then have m: "MinIOStorage_error minio_mem (MinioErrorResponse ''NoSuchKey'')"
    unfolding MinIOStorage_error_def by (intro disjI2 disjI1 exI)
  have "fst (OSSStorage_Download oss_mem ''box'' ''missing.txt'' tidy_cloud) =
          Inl (OssServiceError ''NoSuchKey'')"
    by (simp add: OSSStorage_Download_def oss_mem_def tidy_cloud_def cloud_defs)
  then have oc: "OSSStorage_error oss_mem (OssServiceError ''NoSuchKey'')"
    unfolding OSSStorage_error_def by (intro disjI2 disjI1 exI)
  have "fst (OBStorage_Download obs_mem ''box'' ''missing.txt'' tidy_cloud) =
          Inl (ObsError ''NoSuchKey'')"
    by (simp add: OBStorage_Download_def obs_mem_def tidy_cloud_def cloud_defs)
  then have ob: "OBStorage_error obs_mem (ObsError ''NoSuchKey'')"
    unfolding OBStorage_error_def by (intro disjI2 disjI1 exI)
  have "fst (AzureStorage_Download (azure_mem 2) ''box'' ''missing.txt'' tidy_cloud) =
          Inl (AzureResponseError 404 ''BlobNotFound'')"
    by (simp add: AzureStorage_Download_def azure_mem_def tidy_cloud_def cloud_defs)
  then have a: "AzureStorage_error (azure_mem 2) (AzureResponseError 404 ''BlobNotFound'')"
    unfolding AzureStorage_error_def by (intro disjI2 disjI1 exI)
  from m oc ob a
    C2_errors_pass_through [of minio_mem "MinioErrorResponse ''NoSuchKey''"
      oss_mem "OssServiceError ''NoSuchKey''" obs_mem "ObsError ''NoSuchKey''"
      "azure_mem 2" "AzureResponseError 404 ''BlobNotFound''"]
  show ?thesis by simp
qed

subsection \<open>Directories\<close>

text \<open>
  C3. With the marker \<open>a/\<close> stored, \<open>EnsurePathExists\<close> for \<open>a/x.txt\<close> succeeds
  without a write on every adapter; the one call it makes is a stat or metadata
  call on MinIO, OSS and OBS, and on Azure a \<open>DownloadStream\<close>, a download of
  the marker blob whose body stream is then left open.
\<close>

theorem C3_azure_probe_is_a_download:
  "AzureStorage_EnsurePathExists (azure_mem 2) ''box'' ''a/x.txt'' tidy_cloud =
     (None, tidy_cloud\<lparr>sdk_calls := [SDK ''DownloadStream'' [''box'', ''a/'']]\<rparr>)
   \<and> MinIOStorage_EnsurePathExists minio_mem ''box'' ''a/x.txt'' tidy_cloud =
     (None, tidy_cloud\<lparr>sdk_calls := [SDK ''StatObject'' [''box'', ''a/'']]\<rparr>)
   \<and> OSSStorage_EnsurePathExists oss_mem ''box'' ''a/x.txt'' tidy_cloud =
     (None, tidy_cloud\<lparr>sdk_calls := [SDK ''GetObjectDetailedMeta'' [''box'', ''a/'']]\<rparr>)
   \<and> OBStorage_EnsurePathExists obs_mem ''box'' ''a/x.txt'' tidy_cloud =
     (None, tidy_cloud\<lparr>sdk_calls := [SDK ''GetObjectMetadata'' [''box'', ''a/'']]\<rparr>)"
  by (simp add: AzureStorage_EnsurePathExists_def MinIOStorage_EnsurePathExists_def
      OSSStorage_EnsurePathExists_def OBStorage_EnsurePathExists_def
      azure_mem_def minio_mem_def oss_mem_def obs_mem_def tidy_cloud_def cloud_defs)

text \<open>The listing of the example container, step by step.\<close>

lemma keys_under_tidy:
  "keys_under ''box'' [] (logging call tidy_cloud) = [''a/'', ''a/c/d.txt'', ''top.txt'', ''x/y.txt'']"
  "keys_under ''box'' [] tidy_cloud = [''a/'', ''a/c/d.txt'', ''top.txt'', ''x/y.txt'']"
  by (simp_all add: keys_under_def tidy_cloud_def HasPrefix_def logging_def)

lemma listing_tidy:
  "listing ''box'' [] ''/'' tidy_cloud = [(True, ''a/''), (True, ''x/''), (False, ''top.txt'')]"
  by (simp add: listing_def keys_under_tidy grouped_def common_prefix_def)

lemma oss_page_tidy:
  "oss_page ''box'' [oss_Prefix [], oss_Delimiter ''/'', oss_Marker []] tidy_cloud =
     \<lparr>lor_Objects = [oss_item ''top.txt''], lor_CommonPrefixes = [''a/'', ''x/''],
      lor_IsTruncated = False, lor_NextMarker = []\<rparr>"
  by (simp add: oss_page_def listing_tidy after_marker_def keys_of_def prefixes_of_def)

text \<open>
  C9. The records that \<open>ListDirectories\<close> of the Azure, OSS and OBS adapters
  return are \<open>directory_record\<close>s, whose \<open>Metadata\<close> is the nil map.
\<close>

theorem C9_directory_records_have_nil_metadata:
  "map_option fst (AzureStorage_ListDirectories (azure_mem 2) ''box'' [] tidy_cloud) =
     Some (Inr (map directory_record [''a/'', ''a/c/'', ''x/'']))
   \<and> map_option fst (OSSStorage_ListDirectories oss_mem ''box'' [] tidy_cloud) =
     Some (Inr (map directory_record [''a/'', ''x/'']))
   \<and> fst (OBStorage_ListDirectories obs_mem ''box'' [] tidy_cloud) =
     Inr (map directory_record [''a/'', ''x/''])
   \<and> map Metadata (map directory_record [''a/'', ''a/c/'', ''x/'']) = [None, None, None]"
proof -
  have az: "map_option fst (AzureStorage_ListDirectories (azure_mem 2) ''box'' [] tidy_cloud) =
     Some (Inr (map directory_record [''a/'', ''a/c/'', ''x/'']))"
    by (simp add: AzureStorage_ListDirectories_def AzureStorage_ListDirectories_loop.simps
        azure_mem_def AzureStorage_ListDirectories_blob_def AzureStorage_ListDirectories_part_def
        azure_item_def tidy_cloud_def cloud_defs)
  have l: "oss_ListObjects oss_mem ''box'' [oss_Prefix [], oss_Delimiter ''/'', oss_Marker []] tidy_cloud =
      (Inr (oss_page ''box'' [oss_Prefix [], oss_Delimiter ''/'', oss_Marker []] tidy_cloud),
       logging (SDK ''ListObjects'' [''box'', [], []]) tidy_cloud)"
    by (simp add: oss_mem_def)
  have b: "oss_Bucket oss_mem ''box'' = None"
    by (simp add: oss_mem_def)
  have oss: "map_option fst (OSSStorage_ListDirectories oss_mem ''box'' [] tidy_cloud) =
     Some (Inr (map directory_record [''a/'', ''x/'']))"
    unfolding OSSStorage_ListDirectories_def b
    by (subst OSSStorage_ListDirectories_loop.simps) (simp add: l oss_page_tidy)
  have obs: "fst (OBStorage_ListDirectories obs_mem ''box'' [] tidy_cloud) =
     Inr (map directory_record [''a/'', ''x/''])"
    by (simp add: OBStorage_ListDirectories_def obs_mem_def listing_tidy prefixes_of_def)
  have md: "map Metadata (map directory_record [''a/'', ''a/c/'', ''x/'']) = [None, None, None]"
    by (simp add: directory_record_def)
  from az oss obs md show ?thesis by blast
qed


lemma Split_not_Nil [simp]: "Split s sep \<noteq> []"
  by (induction s) (simp_all split: list.splits)


























subsection \<open>The wrapped operations\<close>

lemma logged_simps [simp]:
  "Download (logged st) b n (w, l) =
     (case Download st b n w of (r, w') \<Rightarrow> (r, (w', l @ [Call_Download b n r])))"
  "Delete (logged st) b n (w, l) =
     (case Delete st b n w of (e, w') \<Rightarrow> (e, (w', l @ [Call_Delete b n e])))"
  "List (logged st) b p (w, l) =
     (case List st b p w of (r, w') \<Rightarrow> (r, (w', l @ [Call_List b p])))"
  "EnsurePathExists (logged st) b n (w, l) =
     (case EnsurePathExists st b n w of (e, w') \<Rightarrow> (e, (w', l @ [Call_EnsurePathExists b n])))"
  "Upload (logged st) b n body sz ct (w, l) =
     (case Upload st b n body sz ct w of (e, w') \<Rightarrow> (e, (w', l @ [Call_Upload b n body sz ct])))"
  "GetObjectInfo (logged st) b n (w, l) =
     (case GetObjectInfo st b n w of (r, w') \<Rightarrow> (r, (w', l @ [Call_GetObjectInfo b n])))"
  by (simp_all add: logged_def)

lemma logged_streams_simps [simp]:
  "zip_Create (logged_streams io) n (w, l) =
     (case zip_Create io n w of (r, w') \<Rightarrow> (r, (w', l @ [Call_zip_Create n (\<not> isl r)])))"
  "io_Copy_zip (logged_streams io) f r (w, l) =
     (case io_Copy_zip io f r w of (e, w') \<Rightarrow> (e, (w', l @ [Call_io_Copy_zip r (e = None)])))"
  "reader_Close (logged_streams io) r (w, l) = (reader_Close io r w, l @ [Call_reader_Close r])"
  "zip_Close (logged_streams io) (w, l) = (zip_Close io w, l @ [Call_zip_Close])"
  "io_Copy_response (logged_streams io) r (w, l) =
     (case io_Copy_response io r w of (e, w') \<Rightarrow> (e, (w', l @ [Call_io_Copy_response r (e = None)])))"
  by (simp_all add: logged_streams_def)

lemma zip_objects_attempts:
  "list_all (\<lambda>obj. length prefix \<le> length (Name obj)) objs \<Longrightarrow>
   \<exists>atts w'. length atts = length (filter (\<lambda>obj. \<not> is_directory_record obj) objs)
      \<and> zip_objects (logged st) (logged_streams io) bucket prefix objs (w, l) =
          (True, (w', l @ concat (map2 (attempt_events bucket prefix)
                    (filter (\<lambda>obj. \<not> is_directory_record obj) objs) atts)))"
proof (induction objs arbitrary: w l)
  case Nil
  then show ?case by simp
next
  case (Cons obj objs)
  from Cons.prems have rest: "list_all (\<lambda>obj. length prefix \<le> length (Name obj)) objs"
    and len: "length prefix \<le> length (Name obj)" by simp_all
  show ?case
  proof (cases "is_directory_record obj")
    case True
    then have c: "IsDir obj \<or> HasSuffix (Name obj) ''/''" by (simp add: is_directory_record_def)
    have z: "zip_objects (logged st) (logged_streams io) bucket prefix (obj # objs) (w, l)
           = zip_objects (logged st) (logged_streams io) bucket prefix objs (w, l)"
      using c by simp
    show ?thesis using Cons.IH [OF rest, of w l] True unfolding z by simp
  next
    case False
    then have c: "\<not> (IsDir obj \<or> HasSuffix (Name obj) ''/'')" by (simp add: is_directory_record_def)
    obtain r w1 where d: "Download st bucket (Name obj) w = (r, w1)" by (cases "Download st bucket (Name obj) w")
    show ?thesis
    proof (cases r)
      case (Inl e)
      from Cons.IH [OF rest, of w1 "l @ [Call_Download bucket (Name obj) (Inl e)]"]
      obtain atts w' where a: "length atts = length (filter (\<lambda>obj. \<not> is_directory_record obj) objs)"
        and z: "zip_objects (logged st) (logged_streams io) bucket prefix objs
                  (w1, l @ [Call_Download bucket (Name obj) (Inl e)]) =
                (True, (w', (l @ [Call_Download bucket (Name obj) (Inl e)]) @ concat (map2 (attempt_events bucket prefix)
                    (filter (\<lambda>obj. \<not> is_directory_record obj) objs) atts)))" by blast
      show ?thesis
        apply (rule exI [of _ "Download_failed e # atts"])
        apply (rule exI [of _ w'])
        using False c d Inl a z by simp
    next
      case (Inr rd)
      obtain c w2 where cr: "zip_Create io (drop (length prefix) (Name obj)) w1 = (c, w2)"
        by (cases "zip_Create io (drop (length prefix) (Name obj)) w1")
      show ?thesis
      proof (cases c)
        case (Inl e)
        let ?l = "l @ [Call_Download bucket (Name obj) (Inr rd), Call_zip_Create (drop (length prefix) (Name obj)) False, Call_reader_Close rd]"
        from Cons.IH [OF rest, of "reader_Close io rd w2" ?l]
        obtain atts w' where a: "length atts = length (filter (\<lambda>obj. \<not> is_directory_record obj) objs)"
          and z: "zip_objects (logged st) (logged_streams io) bucket prefix objs
                  (reader_Close io rd w2, ?l) =
                (True, (w', ?l @ concat (map2 (attempt_events bucket prefix)
                    (filter (\<lambda>obj. \<not> is_directory_record obj) objs) atts)))" by blast
        show ?thesis
          apply (rule exI [of _ "Create_failed rd # atts"])
          apply (rule exI [of _ w'])
          using False c d Inr cr Inl a z len by simp
      next
        case (Inr zf)
        obtain e w3 where cp: "io_Copy_zip io zf rd w2 = (e, w3)"
          by (cases "io_Copy_zip io zf rd w2")
        let ?l = "l @ [Call_Download bucket (Name obj) (Inr rd), Call_zip_Create (drop (length prefix) (Name obj)) True, Call_io_Copy_zip rd (e = None), Call_reader_Close rd]"
        from Cons.IH [OF rest, of "reader_Close io rd w3" ?l]
        obtain atts w' where a: "length atts = length (filter (\<lambda>obj. \<not> is_directory_record obj) objs)"
          and z: "zip_objects (logged st) (logged_streams io) bucket prefix objs
                  (reader_Close io rd w3, ?l) =
                (True, (w', ?l @ concat (map2 (attempt_events bucket prefix)
                    (filter (\<lambda>obj. \<not> is_directory_record obj) objs) atts)))" by blast
        show ?thesis
          apply (rule exI [of _ "Copied rd (e = None) # atts"])
          apply (rule exI [of _ w'])
          using False c d \<open>r = Inr rd\<close> cr Inr cp a z len by simp
      qed
    qed
  qed
qed


lemma opened_append: "opened (xs @ ys) = opened xs @ opened ys"
  by (induction xs rule: opened.induct) simp_all

lemma closed_append: "closed (xs @ ys) = closed xs @ closed ys"
  by (induction xs rule: closed.induct) simp_all

lemma downloads_append: "downloads (xs @ ys) = downloads xs @ downloads ys"
  by (induction xs rule: downloads.induct) simp_all

lemma failed_downloads_append:
  "failed_downloads (xs @ ys) = failed_downloads xs @ failed_downloads ys"
  by (induction xs rule: failed_downloads.induct) simp_all

lemma entries_append: "entries (xs @ ys) = entries xs @ entries ys"
  by (induction xs rule: entries.induct) simp_all

lemma refused_entries_append:
  "refused_entries (xs @ ys) = refused_entries xs @ refused_entries ys"
  by (induction xs rule: refused_entries.induct) simp_all

lemma attempts_opened_closed:
  "opened (concat (map2 (attempt_events bucket prefix) objs atts)) =
   closed (concat (map2 (attempt_events bucket prefix) objs atts))"
proof (induction objs arbitrary: atts)
  case Nil
  then show ?case by simp
next
  case (Cons obj objs)
  show ?case
  proof (cases atts)
    case Nil
    then show ?thesis by simp
  next
    case (Cons a as)
    then show ?thesis using Cons.IH [of as]
      by (cases a) (simp_all add: opened_append closed_append)
  qed
qed

lemma attempts_downloads:
  "length atts = length objs \<Longrightarrow>
   downloads (concat (map2 (attempt_events bucket prefix) objs atts)) =
   map (\<lambda>obj. (bucket, Name obj)) objs"
proof (induction objs arbitrary: atts)
  case Nil
  then show ?case by simp
next
  case (Cons obj objs)
  then obtain a as where atts: "atts = a # as" and l: "length as = length objs"
    by (cases atts) simp_all
  show ?case using Cons.IH [OF l] atts
    by (cases a) (simp_all add: downloads_append)
qed

lemma attempts_entries:
  "length atts = length objs \<Longrightarrow>
   failed_downloads (concat (map2 (attempt_events bucket prefix) objs atts)) = [] \<Longrightarrow>
   refused_entries (concat (map2 (attempt_events bucket prefix) objs atts)) = [] \<Longrightarrow>
   entries (concat (map2 (attempt_events bucket prefix) objs atts)) =
   map (\<lambda>obj. drop (length prefix) (Name obj)) objs"
proof (induction objs arbitrary: atts)
  case Nil
  then show ?case by simp
next
  case (Cons obj objs)
  then obtain a as where atts: "atts = a # as" and l: "length as = length objs"
    by (cases atts) simp_all
  show ?case using Cons.IH [OF l] Cons.prems(2,3) atts
    by (cases a) (simp_all add: entries_append failed_downloads_append refused_entries_append)
qed

lemma HasPrefix_length: "HasPrefix s pre \<Longrightarrow> length pre \<le> length s"
  by (simp add: HasPrefix_def)

lemma HasPrefix_drop: "HasPrefix s pre \<Longrightarrow> pre @ drop (length pre) s = s"
  by (metis HasPrefix_def append_take_drop_id)

lemma downloadFile_archive:
  assumes dir: "Query c ''directory'' = ''true''"
    and bucket: "bucket = bucket_or_default cfg c"
    and object: "object = strip_slash (Param c ''object'')"
    and prefix: "prefix = (if object \<noteq> [] \<and> \<not> HasSuffix object ''/'' then object @ ''/'' else object)"
    and list: "List st bucket prefix w = (Inr objs, w1)"
    and under: "list_all (\<lambda>obj. HasPrefix (Name obj) prefix) objs"
  shows "\<exists>atts w'. length atts = length (filter (\<lambda>obj. \<not> is_directory_record obj) objs) \<and>
           downloadFile (logged st) (logged_streams io) cfg c (w, []) =
             (ZipDownload (Base (TrimSuffix prefix ''/'') @ ''.zip''),
              (w', Call_List bucket prefix #
                   concat (map2 (attempt_events bucket prefix)
                     (filter (\<lambda>obj. \<not> is_directory_record obj) objs) atts) @ [Call_zip_Close]))"
proof -
  from under have "list_all (\<lambda>obj. length prefix \<le> length (Name obj)) objs"
    by (induction objs) (simp_all add: HasPrefix_length)
  from zip_objects_attempts [OF this, of st io bucket w1 "[Call_List bucket prefix]"]
  obtain atts w' where a: "length atts = length (filter (\<lambda>obj. \<not> is_directory_record obj) objs)"
    and z: "zip_objects (logged st) (logged_streams io) bucket prefix objs (w1, [Call_List bucket prefix]) =
          (True, (w', [Call_List bucket prefix] @ concat (map2 (attempt_events bucket prefix)
                    (filter (\<lambda>obj. \<not> is_directory_record obj) objs) atts)))" by blast
  show ?thesis
    apply (rule exI [of _ atts])
    apply (rule exI [of _ "zip_Close io w'"])
    using dir bucket [symmetric] object [symmetric] prefix [symmetric] list a z
    by (simp add: downloadFile_def Let_def)
qed


lemmas mem_defs = mem_Storage_def mem_streams_def mem_file_def mem_marker_def mem_request_def
  mem_is_def example_world_def example_config_def


lemmas eval_defs = downloadFile_def mem_defs example_request_def bucket_or_default_def strip_slash_def
  HasPrefix_def HasSuffix_def Base_def TrimSuffix_def Let_def is_directory_record_def


text \<open>The records that have their entry are among the records attempted, and
  the entries created are their names without the prefix, in order.\<close>

lemma archived_Cons:
  "archived (obj # files) (a # atts) =
     (if got_entry a then obj # archived files atts else archived files atts)"
  by (simp add: archived_def)

lemma archived_Nil [simp]: "archived [] atts = []" "archived files [] = []"
  by (simp_all add: archived_def)

lemma set_archived: "set (archived files atts) \<subseteq> set files"
  unfolding archived_def by (auto dest: set_zip_leftD)

lemma attempts_entries_archived:
  "length atts = length files \<Longrightarrow>
   entries (concat (map2 (attempt_events bucket prefix) files atts)) =
   map (\<lambda>obj. drop (length prefix) (Name obj)) (archived files atts)"
proof (induction files arbitrary: atts)
  case Nil
  then show ?case by simp
next
  case (Cons obj files)
  then obtain a as where atts: "atts = a # as" and l: "length as = length files"
    by (cases atts) simp_all
  show ?case using Cons.IH [OF l] atts
    by (cases a) (simp_all add: entries_append archived_Cons)
qed

lemma attempts_all_archived:
  "length atts = length files \<Longrightarrow>
   failed_downloads (concat (map2 (attempt_events bucket prefix) files atts)) = [] \<Longrightarrow>
   refused_entries (concat (map2 (attempt_events bucket prefix) files atts)) = [] \<Longrightarrow>
   archived files atts = files"
proof (induction files arbitrary: atts)
  case Nil
  then show ?case by simp
next
  case (Cons obj files)
  then obtain a as where atts: "atts = a # as" and l: "length as = length files"
    by (cases atts) simp_all
  show ?case using Cons.IH [OF l] Cons.prems(2,3) atts
    by (cases a) (simp_all add: failed_downloads_append refused_entries_append archived_Cons)
qed

lemma archived_nth:
  assumes "i < length files" "length atts = length files" "got_entry (atts ! i)"
  shows "files ! i \<in> set (archived files atts)"
proof -
  have "(files ! i, atts ! i) \<in> set (zip files atts)"
    using assms(1,2) by (metis in_set_zip fst_conv snd_conv)
  with assms(3) have "(files ! i, atts ! i) \<in> set (filter (\<lambda>p. got_entry (snd p)) (zip files atts))"
    by simp
  then have "fst (files ! i, atts ! i) \<in> fst ` set (filter (\<lambda>p. got_entry (snd p)) (zip files atts))"
    by (rule imageI)
  then show ?thesis by (simp add: archived_def)
qed

text \<open>
  C4. The archive download lists under the prefix made to end with a slash when
  it is not empty, and answers with the archive. Its calls after the listing
  are one attempt per record that is neither flagged as a directory nor named
  with a trailing slash, in the order of the listing; directory records give
  no call and no entry. The entries created are, in that order, one per such
  record whose download succeeded and whose entry the archive accepted
  (\<open>archived\<close>), each named by the key without the prefix (the prefix followed by
  the entry name is the key). When no download fails and no entry is refused,
  these are all the records that are not directories. A record whose download
  fails or whose entry is refused has no entry: the entries are not one per
  record returned by the listing in every run.
\<close>

theorem C4_archive_entries:
  assumes dir: "Query c ''directory'' = ''true''"
    and bucket: "bucket = bucket_or_default cfg c"
    and object: "object = strip_slash (Param c ''object'')"
    and prefix: "prefix = (if object \<noteq> [] \<and> \<not> HasSuffix object ''/'' then object @ ''/'' else object)"
    and list: "List st bucket prefix w = (Inr objs, w1)"
    and under: "list_all (\<lambda>obj. HasPrefix (Name obj) prefix) objs"
    and files: "files = filter (\<lambda>obj. \<not> is_directory_record obj) objs"
  shows "\<exists>atts w' evs.
           downloadFile (logged st) (logged_streams io) cfg c (w, []) =
             (ZipDownload (Base (TrimSuffix prefix ''/'') @ ''.zip''), (w', evs))
         \<and> length atts = length files
         \<and> evs = Call_List bucket prefix #
                   concat (map2 (attempt_events bucket prefix) files atts) @ [Call_zip_Close]
         \<and> entries evs = map (\<lambda>obj. drop (length prefix) (Name obj)) (archived files atts)
         \<and> map (\<lambda>e. prefix @ e) (entries evs) = map Name (archived files atts)
         \<and> (failed_downloads evs = [] \<and> refused_entries evs = [] \<longrightarrow> archived files atts = files)"
proof -
  from downloadFile_archive [OF dir bucket object prefix list under, of io] files
  obtain atts w' where a: "length atts = length files"
    and d: "downloadFile (logged st) (logged_streams io) cfg c (w, []) =
             (ZipDownload (Base (TrimSuffix prefix ''/'') @ ''.zip''),
              (w', Call_List bucket prefix #
                   concat (map2 (attempt_events bucket prefix) files atts) @ [Call_zip_Close]))"
    by blast
  let ?mid = "concat (map2 (attempt_events bucket prefix) files atts)"
  let ?evs = "Call_List bucket prefix # ?mid @ [Call_zip_Close]"
  have e: "entries ?evs = map (\<lambda>obj. drop (length prefix) (Name obj)) (archived files atts)"
    using attempts_entries_archived [OF a, of bucket prefix] by (simp add: entries_append)
  have "list_all (\<lambda>obj. HasPrefix (Name obj) prefix) files"
    using under files by (simp add: list_all_iff)
  then have "list_all (\<lambda>obj. HasPrefix (Name obj) prefix) (archived files atts)"
    using set_archived [of files atts] by (auto simp: list_all_iff)
  then have "map (\<lambda>e. prefix @ e) (map (\<lambda>obj. drop (length prefix) (Name obj)) (archived files atts)) =
             map Name (archived files atts)"
    by (induction "archived files atts") (simp_all add: HasPrefix_drop list_all_iff)
  with e have n: "map (\<lambda>e. prefix @ e) (entries ?evs) = map Name (archived files atts)"
    by simp
  have all: "failed_downloads ?evs = [] \<and> refused_entries ?evs = [] \<longrightarrow> archived files atts = files"
  proof
    assume "failed_downloads ?evs = [] \<and> refused_entries ?evs = []"
    then have "failed_downloads ?mid = []" "refused_entries ?mid = []"
      by (simp_all add: failed_downloads_append refused_entries_append)
    from attempts_all_archived [OF a this] show "archived files atts = files" .
  qed
  from d a e n all show ?thesis by blast
qed

text \<open>The example of the specification: the marker \<open>a/\<close> and the files
  \<open>a/x.txt\<close> and \<open>a/y.txt\<close> give the entries \<open>x.txt\<close> and \<open>y.txt\<close>.\<close>

theorem C4_archive_entries_witness:
  "List mem_Storage ''b'' ''a/'' (example_world []) =
     (Inr (map (\<lambda>x. fst (snd x)) (contents (example_world []))), example_world [])
   \<and> map Name (map (\<lambda>x. fst (snd x)) (contents (example_world []))) = [''a/'', ''a/x.txt'', ''a/y.txt'']
   \<and> entries (snd (snd (downloadFile (logged mem_Storage) (logged_streams mem_streams)
         example_config example_request (example_world [], [])))) = [''x.txt'', ''y.txt'']"
proof -
  let ?run = "downloadFile (logged mem_Storage) (logged_streams mem_streams)
         example_config example_request (example_world [], [])"
  let ?objs = "map (\<lambda>x. fst (snd x)) (contents (example_world []))"
  let ?files = "filter (\<lambda>obj. \<not> is_directory_record obj) ?objs"
  have dir: "Query example_request ''directory'' = ''true''"
    by (simp add: eval_defs)
  have bucket: "''b'' = bucket_or_default example_config example_request"
    by (simp add: eval_defs)
  have object: "''a'' = strip_slash (Param example_request ''object'')"
    by (simp add: eval_defs)
  have prefix: "''a/'' = (if ''a'' \<noteq> [] \<and> \<not> HasSuffix ''a'' ''/'' then ''a'' @ ''/'' else ''a'')"
    by (simp add: eval_defs)
  have list: "List mem_Storage ''b'' ''a/'' (example_world []) = (Inr ?objs, example_world [])"
    by (simp add: eval_defs)
  have under: "list_all (\<lambda>obj. HasPrefix (Name obj) ''a/'') ?objs"
    by (simp add: eval_defs)
  have ok: "failed_downloads (snd (snd ?run)) = []" "refused_entries (snd (snd ?run)) = []"
    by (simp_all add: eval_defs)
  have names: "map Name ?objs = [''a/'', ''a/x.txt'', ''a/y.txt'']"
    by (simp add: eval_defs)
  from C4_archive_entries [OF dir bucket object prefix list under refl, of mem_streams]
  obtain atts :: "(string \<times> string) attempt list" and w' evs
    where run: "?run = (ZipDownload (Base (TrimSuffix ''a/'' ''/'') @ ''.zip''), (w', evs))"
    and e: "entries evs = map (\<lambda>obj. drop (length ''a/'') (Name obj)) (archived ?files atts)"
    and all: "failed_downloads evs = [] \<and> refused_entries evs = [] \<longrightarrow> archived ?files atts = ?files"
    by blast
  from run have evs: "evs = snd (snd ?run)" by simp
  from all ok evs have "archived ?files atts = ?files" by simp
  with e evs have "entries (snd (snd ?run)) = map (\<lambda>obj. drop (length ''a/'') (Name obj)) ?files"
    by simp
  also have "\<dots> = [''x.txt'', ''y.txt'']"
    by (simp add: eval_defs)
  finally show ?thesis using list names by blast
qed

text \<open>The same listing with the download of \<open>a/x.txt\<close> failing: two records
  that are not directories are listed, and the archive has the one entry
  \<open>y.txt\<close>.\<close>

theorem C4_failed_download_counterexample:
  "List mem_Storage ''b'' ''a/'' (example_world [''a/x.txt'']) =
     (Inr (map (\<lambda>x. fst (snd x)) (contents (example_world [''a/x.txt'']))), example_world [''a/x.txt''])
   \<and> map Name (filter (\<lambda>obj. \<not> is_directory_record obj)
        (map (\<lambda>x. fst (snd x)) (contents (example_world [''a/x.txt''])))) = [''a/x.txt'', ''a/y.txt'']
   \<and> fst (downloadFile (logged mem_Storage) (logged_streams mem_streams)
         example_config example_request (example_world [''a/x.txt''], [])) = ZipDownload ''a.zip''
   \<and> entries (snd (snd (downloadFile (logged mem_Storage) (logged_streams mem_streams)
         example_config example_request (example_world [''a/x.txt''], [])))) = [''y.txt'']
   \<and> archive (fst (snd (downloadFile (logged mem_Storage) (logged_streams mem_streams)
         example_config example_request (example_world [''a/x.txt''], [])))) = [(''y.txt'', ''Y'')]"
  by (simp add: eval_defs)

text \<open>
  C5. The archive download, run on any storage and any streams, with the
  listing returning names under the prefix: whatever fails, the handler answers
  with the archive (never with an error), and its calls after the listing are,
  for each record that is not a directory and in the order of the listing, one
  of the three courses of \<open>attempt_events\<close>: a failed download alone; a download,
  a refused entry and the closing of the stream; or a download, the entry, the
  copy (failed or not) and the closing of the stream. So every such record is
  downloaded whatever happened to the records before it, and the streams opened
  are exactly the streams closed. A record whose download failed or whose entry
  was refused has no entry in the archive. A record whose copy failed is not
  left out: its entry was created before the copy and stays in the archive,
  holding what was written before the failure.
\<close>

theorem C5_archive_best_effort:
  assumes dir: "Query c ''directory'' = ''true''"
    and bucket: "bucket = bucket_or_default cfg c"
    and object: "object = strip_slash (Param c ''object'')"
    and prefix: "prefix = (if object \<noteq> [] \<and> \<not> HasSuffix object ''/'' then object @ ''/'' else object)"
    and list: "List st bucket prefix w = (Inr objs, w1)"
    and under: "list_all (\<lambda>obj. HasPrefix (Name obj) prefix) objs"
    and files: "files = filter (\<lambda>obj. \<not> is_directory_record obj) objs"
  shows "\<exists>atts w' evs.
           downloadFile (logged st) (logged_streams io) cfg c (w, []) =
             (ZipDownload (Base (TrimSuffix prefix ''/'') @ ''.zip''), (w', evs))
         \<and> length atts = length files
         \<and> evs = Call_List bucket prefix #
                   concat (map2 (attempt_events bucket prefix) files atts) @ [Call_zip_Close]
         \<and> downloads evs = map (\<lambda>obj. (bucket, Name obj)) files
         \<and> opened evs = closed evs
         \<and> entries evs = map (\<lambda>obj. drop (length prefix) (Name obj)) (archived files atts)
         \<and> (\<forall>i<length files. \<forall>r. atts ! i = Copied r False \<longrightarrow>
               files ! i \<in> set (archived files atts)
             \<and> drop (length prefix) (Name (files ! i)) \<in> set (entries evs))"
proof -
  from downloadFile_archive [OF dir bucket object prefix list under, of io] files
  obtain atts w' where a: "length atts = length files"
    and d: "downloadFile (logged st) (logged_streams io) cfg c (w, []) =
             (ZipDownload (Base (TrimSuffix prefix ''/'') @ ''.zip''),
              (w', Call_List bucket prefix #
                   concat (map2 (attempt_events bucket prefix) files atts) @ [Call_zip_Close]))"
    by blast
  let ?evs = "Call_List bucket prefix # concat (map2 (attempt_events bucket prefix) files atts) @ [Call_zip_Close]"
  have dl: "downloads ?evs = map (\<lambda>obj. (bucket, Name obj)) files"
    using attempts_downloads [OF a, of bucket prefix] by (simp add: downloads_append)
  have oc: "opened ?evs = closed ?evs"
    using attempts_opened_closed [of bucket prefix files atts]
    by (simp add: opened_append closed_append)
  have e: "entries ?evs = map (\<lambda>obj. drop (length prefix) (Name obj)) (archived files atts)"
    using attempts_entries_archived [OF a, of bucket prefix] by (simp add: entries_append)
  have kept: "\<forall>i<length files. \<forall>r. atts ! i = Copied r False \<longrightarrow>
               files ! i \<in> set (archived files atts)
             \<and> drop (length prefix) (Name (files ! i)) \<in> set (entries ?evs)"
  proof (intro allI impI)
    fix i r
    assume i: "i < length files" and c: "atts ! i = Copied r False"
    then have "got_entry (atts ! i)" by simp
    from archived_nth [OF i a this] have m: "files ! i \<in> set (archived files atts)" .
    then have "drop (length prefix) (Name (files ! i)) \<in>
                 (\<lambda>obj. drop (length prefix) (Name obj)) ` set (archived files atts)"
      by (rule imageI)
    with e m show "files ! i \<in> set (archived files atts)
             \<and> drop (length prefix) (Name (files ! i)) \<in> set (entries ?evs)"
      by simp
  qed
  from d a dl oc e kept show ?thesis by blast
qed

text \<open>Two attempts read back from their calls.\<close>

lemma two_attempts:
  assumes "length atts = 2"
    and "concat (map2 (attempt_events b p) [f1, f2] atts) =
           [Call_Download b n1 (Inr r1), Call_zip_Create e1 True, Call_io_Copy_zip r1 False,
            Call_reader_Close r1, Call_Download b n2 (Inl err)]"
  shows "atts ! 0 = Copied r1 False"
proof -
  from assms(1) obtain a1 a2 where atts: "atts = [a1, a2]"
    by (cases atts; cases "tl atts") auto
  from assms(2) show ?thesis unfolding atts
    by (cases a1; cases a2) simp_all
qed

text \<open>With the copy of \<open>a/x.txt\<close> failing and the download of \<open>a/y.txt\<close>
  failing, the archive is still sent, the stream of \<open>a/x.txt\<close> is closed and the
  entry \<open>x.txt\<close> is in the archive.\<close>

theorem C5_archive_best_effort_witness:
  "(\<exists>w'. downloadFile (logged mem_Storage) (logged_streams (unreadable_streams [''a/x.txt'']))
         example_config example_request (example_world [''a/y.txt''], []) =
        (ZipDownload ''a.zip'',
         (w', [Call_List ''b'' ''a/'',
               Call_Download ''b'' ''a/x.txt'' (Inr (''a/x.txt'', ''X'')),
               Call_zip_Create ''x.txt'' True,
               Call_io_Copy_zip (''a/x.txt'', ''X'') False,
               Call_reader_Close (''a/x.txt'', ''X''),
               Call_Download ''b'' ''a/y.txt'' (Inl (ErrorString ''unavailable'')),
               Call_zip_Close])))
   \<and> ''x.txt'' \<in> set (entries (snd (snd (downloadFile (logged mem_Storage)
         (logged_streams (unreadable_streams [''a/x.txt'']))
         example_config example_request (example_world [''a/y.txt''], [])))))"
proof -
  let ?w = "example_world [''a/y.txt'']"
  let ?io = "unreadable_streams [''a/x.txt'']"
  let ?run = "downloadFile (logged mem_Storage) (logged_streams ?io)
         example_config example_request (?w, [])"
  let ?objs = "map (\<lambda>x. fst (snd x)) (contents ?w)"
  let ?fx = "fst (snd (mem_file ''b'' ''a/x.txt'' ''X''))"
  let ?fy = "fst (snd (mem_file ''b'' ''a/y.txt'' ''Y''))"
  have dir: "Query example_request ''directory'' = ''true''"
    by (simp add: eval_defs)
  have bucket: "''b'' = bucket_or_default example_config example_request"
    by (simp add: eval_defs)
  have object: "''a'' = strip_slash (Param example_request ''object'')"
    by (simp add: eval_defs)
  have prefix: "''a/'' = (if ''a'' \<noteq> [] \<and> \<not> HasSuffix ''a'' ''/'' then ''a'' @ ''/'' else ''a'')"
    by (simp add: eval_defs)
  have list: "List mem_Storage ''b'' ''a/'' ?w = (Inr ?objs, ?w)"
    by (simp add: eval_defs)
  have under: "list_all (\<lambda>obj. HasPrefix (Name obj) ''a/'') ?objs"
    by (simp add: eval_defs)
  have files: "[?fx, ?fy] = filter (\<lambda>obj. \<not> is_directory_record obj) ?objs"
    by (simp add: eval_defs)
  have evs: "snd (snd ?run) =
      [Call_List ''b'' ''a/'',
       Call_Download ''b'' ''a/x.txt'' (Inr (''a/x.txt'', ''X'')),
       Call_zip_Create ''x.txt'' True,
       Call_io_Copy_zip (''a/x.txt'', ''X'') False,
       Call_reader_Close (''a/x.txt'', ''X''),
       Call_Download ''b'' ''a/y.txt'' (Inl (ErrorString ''unavailable'')),
       Call_zip_Close]"
    by (simp add: eval_defs unreadable_streams_def)
  have name: "Base (TrimSuffix ''a/'' ''/'') @ ''.zip'' = ''a.zip''"
    by (simp add: eval_defs)
  from C5_archive_best_effort [OF dir bucket object prefix list under files, of ?io]
  obtain atts :: "(string \<times> string) attempt list" and w' evs where
    run: "?run = (ZipDownload (Base (TrimSuffix ''a/'' ''/'') @ ''.zip''), (w', evs))"
    and len: "length atts = length [?fx, ?fy]"
    and tr: "evs = Call_List ''b'' ''a/'' #
               concat (map2 (attempt_events ''b'' ''a/'') [?fx, ?fy] atts) @ [Call_zip_Close]"
    and kept: "\<forall>i<length [?fx, ?fy]. \<forall>r. atts ! i = Copied r False \<longrightarrow>
               [?fx, ?fy] ! i \<in> set (archived [?fx, ?fy] atts)
             \<and> drop (length ''a/'') (Name ([?fx, ?fy] ! i)) \<in> set (entries evs)"
    by blast
  from run have e: "evs = snd (snd ?run)" by simp
  from tr e evs have "concat (map2 (attempt_events ''b'' ''a/'') [?fx, ?fy] atts) =
      [Call_Download ''b'' ''a/x.txt'' (Inr (''a/x.txt'', ''X'')),
       Call_zip_Create ''x.txt'' True,
       Call_io_Copy_zip (''a/x.txt'', ''X'') False,
       Call_reader_Close (''a/x.txt'', ''X''),
       Call_Download ''b'' ''a/y.txt'' (Inl (ErrorString ''unavailable''))]"
    by simp
  with len have "atts ! 0 = Copied (''a/x.txt'', ''X'') False"
    by (intro two_attempts) simp_all
  moreover have "0 < length [?fx, ?fy]" by simp
  ultimately have "drop (length ''a/'') (Name ([?fx, ?fy] ! 0)) \<in> set (entries evs)"
    using kept by blast
  then have "''x.txt'' \<in> set (entries (snd (snd ?run)))"
    using e by (simp add: mem_file_def)
  with run evs name e show ?thesis by simp
qed

text \<open>When only the copy of \<open>a/x.txt\<close> fails, the archive holds the entry
  \<open>x.txt\<close> with no content beside the entry \<open>y.txt\<close>: the object is not skipped.\<close>

theorem C5_failed_copy_counterexample:
  "downloadFile (logged mem_Storage) (logged_streams (unreadable_streams [''a/x.txt'']))
         example_config example_request (example_world [], []) =
     (ZipDownload ''a.zip'',
      (example_world [] \<lparr>archive := [(''x.txt'', []), (''y.txt'', ''Y'')]\<rparr>,
       [Call_List ''b'' ''a/'',
        Call_Download ''b'' ''a/x.txt'' (Inr (''a/x.txt'', ''X'')),
        Call_zip_Create ''x.txt'' True,
        Call_io_Copy_zip (''a/x.txt'', ''X'') False,
        Call_reader_Close (''a/x.txt'', ''X''),
        Call_Download ''b'' ''a/y.txt'' (Inr (''a/y.txt'', ''Y'')),
        Call_zip_Create ''y.txt'' True,
        Call_io_Copy_zip (''a/y.txt'', ''Y'') True,
        Call_reader_Close (''a/y.txt'', ''Y''),
        Call_zip_Close]))
   \<and> entries (snd (snd (downloadFile (logged mem_Storage) (logged_streams (unreadable_streams [''a/x.txt'']))
         example_config example_request (example_world [], [])))) = [''x.txt'', ''y.txt'']"
  by (simp add: eval_defs unreadable_streams_def)

subsection \<open>The prefix-scoped delete\<close>

lemma deletions_append: "deletions (xs @ ys) = deletions xs @ deletions ys"
  by (induction xs rule: deletions.induct) simp_all

lemma reported_deleted_append:
  "reported_deleted (xs @ ys) = reported_deleted xs @ reported_deleted ys"
  by (induction xs rule: reported_deleted.induct) simp_all

lemma reported_errors_append:
  "reported_errors (xs @ ys) = reported_errors xs @ reported_errors ys"
  by (induction xs rule: reported_errors.induct) simp_all

lemma reported_lengths:
  "length (reported_deleted ds) + length (reported_errors ds) = length ds"
  by (induction ds rule: reported_deleted.induct) simp_all

lemma delete_each_logged:
  "\<exists>w' evs. delete_each (logged st) bucket objs deleted errors (w, l) =
       (deleted @ reported_deleted (deletions evs), errors @ reported_errors (deletions evs),
        (w', l @ evs))
     \<and> evs = map (\<lambda>(b, n, r). Call_Delete b n r) (deletions evs)
     \<and> map (\<lambda>d. (fst d, fst (snd d))) (deletions evs) = map (\<lambda>obj. (bucket, Name obj)) objs"
proof (induction objs arbitrary: deleted errors w l)
  case Nil
  show ?case by (rule exI [of _ w], rule exI [of _ "[]"]) simp
next
  case (Cons obj objs)
  obtain e w1 where d: "Delete st bucket (Name obj) w = (e, w1)"
    by (cases "Delete st bucket (Name obj) w")
  let ?ev = "Call_Delete bucket (Name obj) e"
  let ?deleted = "(case e of None \<Rightarrow> deleted @ [Name obj] | Some err \<Rightarrow> deleted)"
  let ?errors = "(case e of None \<Rightarrow> errors | Some err \<Rightarrow> errors @ [(Name obj, err)])"
  from Cons.IH [of ?deleted ?errors w1 "l @ [?ev]"]
  obtain w' evs where
    run: "delete_each (logged st) bucket objs ?deleted ?errors (w1, l @ [?ev]) =
       (?deleted @ reported_deleted (deletions evs), ?errors @ reported_errors (deletions evs),
        (w', (l @ [?ev]) @ evs))"
    and only: "evs = map (\<lambda>(b, n, r). Call_Delete b n r) (deletions evs)"
    and each: "map (\<lambda>d. (fst d, fst (snd d))) (deletions evs) = map (\<lambda>obj. (bucket, Name obj)) objs"
    by blast
  show ?case
    apply (rule exI [of _ w'])
    apply (rule exI [of _ "?ev # evs"])
    using d run only each by (cases e) simp_all
qed

text \<open>
  C7. The prefix-scoped delete, run on any storage whose listing succeeds: after
  the listing its calls are deletions only, one per listed record, in the order
  of the listing and each for that record's name; it answers with the report
  whose deleted names are the names whose deletion returned no error and whose
  errors are one entry per deletion that returned one, so the two lists
  together are as long as the listing; nothing is undone. When the listing is
  empty both lists are empty and no deletion is called.
\<close>

theorem C7_bulk_delete_report:
  assumes bucket: "bucket = bucket_or_default cfg c"
    and prefix: "prefix = strip_slash (Param c ''prefix'')"
    and list: "List st bucket prefix w = (Inr objs, w1)"
  shows "\<exists>w' evs.
      deleteObjects (logged st) cfg c (w, []) =
        (DeleteReport bucket prefix (reported_deleted (deletions evs)) (reported_errors (deletions evs)),
         (w', Call_List bucket prefix # evs))
    \<and> evs = map (\<lambda>(b, n, r). Call_Delete b n r) (deletions evs)
    \<and> map (\<lambda>d. (fst d, fst (snd d))) (deletions evs) = map (\<lambda>obj. (bucket, Name obj)) objs
    \<and> length (reported_deleted (deletions evs)) + length (reported_errors (deletions evs)) = length objs
    \<and> (objs = [] \<longrightarrow>
         deleteObjects (logged st) cfg c (w, []) =
           (DeleteReport bucket prefix [] [], (w1, [Call_List bucket prefix])))"
proof -
  from delete_each_logged [of st bucket objs "[]" "[]" w1 "[Call_List bucket prefix]"]
  obtain w' evs where
    run: "delete_each (logged st) bucket objs [] [] (w1, [Call_List bucket prefix]) =
       (reported_deleted (deletions evs), reported_errors (deletions evs),
        (w', Call_List bucket prefix # evs))"
    and only: "evs = map (\<lambda>(b, n, r). Call_Delete b n r) (deletions evs)"
    and each: "map (\<lambda>d. (fst d, fst (snd d))) (deletions evs) = map (\<lambda>obj. (bucket, Name obj)) objs"
    by auto
  have resp: "deleteObjects (logged st) cfg c (w, []) =
        (DeleteReport bucket prefix (reported_deleted (deletions evs)) (reported_errors (deletions evs)),
         (w', Call_List bucket prefix # evs))"
    using bucket [symmetric] prefix [symmetric] list run
    by (simp add: deleteObjects_def Let_def)
  have len: "length (reported_deleted (deletions evs)) + length (reported_errors (deletions evs)) = length objs"
    using reported_lengths [of "deletions evs"] each
    by (metis length_map)
  have zero: "objs = [] \<longrightarrow>
         deleteObjects (logged st) cfg c (w, []) =
           (DeleteReport bucket prefix [] [], (w1, [Call_List bucket prefix]))"
    using bucket [symmetric] prefix [symmetric] list
    by (simp add: deleteObjects_def Let_def)
  from resp only each len zero show ?thesis by blast
qed

text \<open>With \<open>a/x.txt\<close> refusing to be deleted, the two other objects are deleted
  and the report names the third with its error.\<close>

theorem C7_bulk_delete_report_witness:
  "List mem_Storage ''b'' ''a/'' (example_world [''a/x.txt'']) =
     (Inr (map (\<lambda>x. fst (snd x)) (contents (example_world [''a/x.txt'']))), example_world [''a/x.txt''])
   \<and> (\<exists>w'. deleteObjects (logged mem_Storage) example_config example_request
              (example_world [''a/x.txt''], []) =
         (DeleteReport ''b'' ''a/'' [''a/'', ''a/y.txt''] [(''a/x.txt'', ErrorString ''unavailable'')],
          (w', [Call_List ''b'' ''a/'',
                Call_Delete ''b'' ''a/'' None,
                Call_Delete ''b'' ''a/x.txt'' (Some (ErrorString ''unavailable'')),
                Call_Delete ''b'' ''a/y.txt'' None])))"
proof -
  let ?w = "example_world [''a/x.txt'']"
  let ?run = "deleteObjects (logged mem_Storage) example_config example_request (?w, [])"
  let ?objs = "map (\<lambda>x. fst (snd x)) (contents ?w)"
  have bucket: "''b'' = bucket_or_default example_config example_request"
    by (simp add: eval_defs)
  have prefix: "''a/'' = strip_slash (Param example_request ''prefix'')"
    by (simp add: eval_defs)
  have list: "List mem_Storage ''b'' ''a/'' ?w = (Inr ?objs, ?w)"
    by (simp add: eval_defs)
  from C7_bulk_delete_report [OF bucket prefix list]
  obtain w' evs where
    run: "?run = (DeleteReport ''b'' ''a/'' (reported_deleted (deletions evs))
                    (reported_errors (deletions evs)), (w', Call_List ''b'' ''a/'' # evs))"
    by blast
  have evs: "snd (snd ?run) =
      [Call_List ''b'' ''a/'',
       Call_Delete ''b'' ''a/'' None,
       Call_Delete ''b'' ''a/x.txt'' (Some (ErrorString ''unavailable'')),
       Call_Delete ''b'' ''a/y.txt'' None]"
    by (simp add: deleteObjects_def eval_defs)
  from run evs have "evs = [Call_Delete ''b'' ''a/'' None,
       Call_Delete ''b'' ''a/x.txt'' (Some (ErrorString ''unavailable'')),
       Call_Delete ''b'' ''a/y.txt'' None]" by simp
  with run list show ?thesis by simp
qed

text \<open>
  C8. An upload request with an empty bucket, on a server whose configured
  default bucket is \<open>b\<close>: \<open>uploadFile\<close> calls \<open>EnsurePathExists\<close> and \<open>Upload\<close>
  with the empty bucket and echoes the empty bucket; the default is not put in
  its place.
\<close>

theorem C8_upload_keeps_empty_bucket:
  "Storage_Bucket example_config = ''b''
   \<and> fst (uploadFile (logged mem_Storage) example_config
            (mem_request [(''bucket'', []), (''object'', ''/a/z.txt'')] []) (example_world [], [])) =
       UploadOK [] ''a/z.txt''
   \<and> snd (snd (uploadFile (logged mem_Storage) example_config
            (mem_request [(''bucket'', []), (''object'', ''/a/z.txt'')] []) (example_world [], []))) =
       [Call_EnsurePathExists [] ''a/z.txt'',
        Call_Upload [] ''a/z.txt'' [] 0 ''application/octet-stream'']"
  by (simp add: uploadFile_def eval_defs)


subsection \<open>The default bucket\<close>

text \<open>The other handlers do put the default in the place of an empty bucket: each
  behaves on a request with an empty bucket as on the same request with the
  configured bucket.\<close>

lemma default_bucket_substituted:
  assumes "Param c ''bucket'' = []"
  shows "downloadFile st io cfg c w =
           downloadFile st io cfg (c\<lparr>Param := (Param c)(''bucket'' := Storage_Bucket cfg)\<rparr>) w"
    and "deleteFile st cfg c w =
           deleteFile st cfg (c\<lparr>Param := (Param c)(''bucket'' := Storage_Bucket cfg)\<rparr>) w"
    and "deleteObjects st cfg c w =
           deleteObjects st cfg (c\<lparr>Param := (Param c)(''bucket'' := Storage_Bucket cfg)\<rparr>) w"
    and "listObjects st cfg c w =
           listObjects st cfg (c\<lparr>Param := (Param c)(''bucket'' := Storage_Bucket cfg)\<rparr>) w"
    and "getObjectInfo st cfg c w =
           getObjectInfo st cfg (c\<lparr>Param := (Param c)(''bucket'' := Storage_Bucket cfg)\<rparr>) w"
proof -
  let ?c = "c\<lparr>Param := (Param c)(''bucket'' := Storage_Bucket cfg)\<rparr>"
  have b: "bucket_or_default cfg ?c = bucket_or_default cfg c"
    using assms by (simp add: bucket_or_default_def)
  have p: "Param ?c ''object'' = Param c ''object''" "Param ?c ''prefix'' = Param c ''prefix''"
    by simp_all
  have q: "Query ?c = Query c" by simp
  show "downloadFile st io cfg c w = downloadFile st io cfg ?c w"
    unfolding downloadFile_def b p q ..
  show "deleteFile st cfg c w = deleteFile st cfg ?c w"
    unfolding deleteFile_def b p q ..
  show "deleteObjects st cfg c w = deleteObjects st cfg ?c w"
    unfolding deleteObjects_def b p q ..
  show "listObjects st cfg c w = listObjects st cfg ?c w"
    unfolding listObjects_def b p q ..
  show "getObjectInfo st cfg c w = getObjectInfo st cfg ?c w"
    unfolding getObjectInfo_def b p q ..
qed


subsection \<open>Routes\<close>

text \<open>
  C10. Of the routes that \<open>registerRoutes\<close> registers, exactly one is for the
  method DELETE and its handler is the single-object \<open>deleteFile\<close>; no route at
  all has the prefix-scoped \<open>deleteObjects\<close> as its handler, so the bulk delete
  cannot be reached through the HTTP interface.
\<close>

theorem C10_delete_routes:
  "map r_handler (filter (\<lambda>r. r_method r = ''DELETE'') registerRoutes) = [H_deleteFile]
   \<and> filter (\<lambda>r. r_handler r = H_deleteObjects) registerRoutes = []"
  by (simp add: registerRoutes_def)

end
